theory Spec2Isabelle
  imports Complex_Main "HOL-Library.AList" "HOL-Library.Word"
begin

unbundle bit_operations_syntax

section \<open>UTM system: data model\<close>

text \<open>
  Shallow embedding of the planner, the conflict detector and resolver, and the mission
  orchestrator. Python floats are idealised as real numbers (no rounding, no NaN, no
  infinities except the cost multiplier, which has its own type); the functions of the
  \<^verbatim>\<open>math\<close> module are the real functions of the same name. Exceptions are values of
  \<open>py_error\<close>, and a function that may raise returns \<open>py_error + 'a\<close>.
\<close>

datatype py_error =
    IndexError
  | KeyError
  | NameError string
  | ValidationError
  | ZeroDivisionError
  | HTTPException nat string

definition ebind :: "py_error + 'a \<Rightarrow> ('a \<Rightarrow> py_error + 'b) \<Rightarrow> py_error + 'b" where
  "ebind m k = (case m of Inl e \<Rightarrow> Inl e | Inr x \<Rightarrow> k x)"

lemma ebind_cong [fundef_cong]:
  "m = m' \<Longrightarrow> (\<And>x. m' = Inr x \<Longrightarrow> k x = k' x) \<Longrightarrow> ebind m k = ebind m' k'"
  by (auto simp: ebind_def split: sum.splits)

lemma ebind_simps [simp]:
  "ebind (Inl e) k = Inl e"
  "ebind (Inr x) k = k x"
  by (simp_all add: ebind_def)

subsection \<open>models.py\<close>

datatype DroneStatus =
    IDLE | ASSIGNED | EN_ROUTE_PICKUP | AT_PICKUP | EN_ROUTE_DELIVERY
  | AT_DELIVERY | RETURNING | EMERGENCY | MAINTENANCE

record Position =
  latitude :: real
  longitude :: real
  altitude :: real

record Position4D = Position +
  timestamp :: real

record Waypoint =
  position :: Position
  eta :: real
  speed :: real
  heading :: real

record Trajectory =
  waypoints :: "Waypoint list"
  total_distance :: real
  total_time :: real
  estimated_battery_usage :: real

record Telemetry =
  t_drone_id :: string
  t_position :: Position
  velocity :: "real \<times> real \<times> real"
  battery_level :: real
  t_status :: DroneStatus
  t_timestamp :: real

record Mission =
  mission_id :: string
  drone_id :: "string option"
  pickup_location :: Position
  delivery_location :: Position
  created_at :: real
  assigned_at :: "real option"
  completed_at :: "real option"
  status :: DroneStatus
  trajectory :: "Trajectory option"

record DeliveryRequest =
  pickup :: Position
  delivery :: Position

record ConflictAlert =
  conflict_id :: string
  drone_1_id :: string
  drone_2_id :: string
  conflict_position :: Position
  conflict_time :: real
  severity :: string
  resolution_action :: "string option"

text \<open>
  The field constraints of \<^verbatim>\<open>Position\<close> (\<^verbatim>\<open>ge\<close>/\<^verbatim>\<open>le\<close>) are checked by pydantic
  each time the class is instantiated; a value out of range raises a validation error.
\<close>

definition valid_position :: "real \<Rightarrow> real \<Rightarrow> real \<Rightarrow> bool" where
  "valid_position la lo al \<longleftrightarrow>
     -90 \<le> la \<and> la \<le> 90 \<and> -180 \<le> lo \<and> lo \<le> 180 \<and> 0 \<le> al \<and> al \<le> 150"

definition mk_Position :: "real \<Rightarrow> real \<Rightarrow> real \<Rightarrow> py_error + Position" where
  "mk_Position la lo al =
     (if valid_position la lo al
      then Inr \<lparr>latitude = la, longitude = lo, altitude = al\<rparr>
      else Inl ValidationError)"

definition mk_Position4D :: "real \<Rightarrow> real \<Rightarrow> real \<Rightarrow> real \<Rightarrow> py_error + Position4D" where
  "mk_Position4D la lo al ts =
     (if valid_position la lo al
      then Inr \<lparr>latitude = la, longitude = lo, altitude = al, timestamp = ts\<rparr>
      else Inl ValidationError)"

definition position_ok :: "'a Position_scheme \<Rightarrow> bool" where
  "position_ok p = valid_position (latitude p) (longitude p) (altitude p)"

subsection \<open>config.py\<close>

definition DRONE_MAX_SPEED :: real where "DRONE_MAX_SPEED = 15"
definition DRONE_MIN_SPEED :: real where "DRONE_MIN_SPEED = 3"
definition DRONE_CRUISE_SPEED :: real where "DRONE_CRUISE_SPEED = 10"
definition DRONE_MAX_ALTITUDE :: real where "DRONE_MAX_ALTITUDE = 120"
definition DRONE_BATTERY_CAPACITY :: real where "DRONE_BATTERY_CAPACITY = 3600"
definition DRONE_POWER_CONSUMPTION :: real where "DRONE_POWER_CONSUMPTION = 200"
definition GRID_RESOLUTION :: real where "GRID_RESOLUTION = 100"
definition ALTITUDE_LAYERS :: "real list" where "ALTITUDE_LAYERS = [30, 50, 70, 90, 110]"
definition HORIZONTAL_SEPARATION :: real where "HORIZONTAL_SEPARATION = 30"
definition VERTICAL_SEPARATION :: real where "VERTICAL_SEPARATION = 15"
definition TIME_RESOLUTION :: real where "TIME_RESOLUTION = 5"

definition DIRECTION_ALTITUDE_MAP :: "(string \<times> real list) list" where
  "DIRECTION_ALTITUDE_MAP =
     [(''NORTH'', [50, 90]), (''SOUTH'', [50, 90]),
      (''EAST'', [30, 70, 110]), (''WEST'', [30, 70, 110])]"

text \<open>A cost multiplier is a float that may be \<^verbatim>\<open>float('inf')\<close>.\<close>

datatype multiplier = Fin real | PInf

record Zone =
  zone_name :: string
  polygon :: "(real \<times> real) list"
  cost_multiplier :: multiplier

definition NO_FLY_ZONES :: "Zone list" where
  "NO_FLY_ZONES =
     [\<lparr>zone_name = ''Airport Restricted Airspace'',
       polygon = [(37.6213, -122.3790), (37.6213, -122.3590),
                  (37.6013, -122.3590), (37.6013, -122.3790)],
       cost_multiplier = PInf\<rparr>,
      \<lparr>zone_name = ''Military Base'',
       polygon = [(37.7850, -122.4100), (37.7850, -122.3900),
                  (37.7650, -122.3900), (37.7650, -122.4100)],
       cost_multiplier = PInf\<rparr>]"

definition SENSITIVE_AREAS :: "Zone list" where
  "SENSITIVE_AREAS =
     [\<lparr>zone_name = ''Elementary School Zone'',
       polygon = [(37.7700, -122.4350), (37.7700, -122.4300),
                  (37.7650, -122.4300), (37.7650, -122.4350)],
       cost_multiplier = Fin 5\<rparr>,
      \<lparr>zone_name = ''Hospital Complex'',
       polygon = [(37.7550, -122.4050), (37.7550, -122.4000),
                  (37.7500, -122.4000), (37.7500, -122.4050)],
       cost_multiplier = Fin 4\<rparr>,
      \<lparr>zone_name = ''Residential High Density'',
       polygon = [(37.7400, -122.4200), (37.7400, -122.4100),
                  (37.7300, -122.4100), (37.7300, -122.4200)],
       cost_multiplier = Fin 2\<rparr>]"

record Bounds =
  min_lat :: real
  max_lat :: real
  min_lon :: real
  max_lon :: real

definition OPERATIONAL_AREA :: Bounds where
  "OPERATIONAL_AREA = \<lparr>min_lat = 37.60, max_lat = 37.80, min_lon = -122.45, max_lon = -122.35\<rparr>"

section \<open>geofencing.py\<close>

text \<open>
  One edge of the ray-casting loop. In the source \<^verbatim>\<open>xinters\<close> is assigned only under
  \<^verbatim>\<open>p1_lon != p2_lon\<close>; inside the two enclosing longitude tests that guard always
  holds (\<open>lon > min\<close> and \<open>lon \<le> max\<close> of two equal numbers is impossible), so the
  variable is always bound where it is read.
\<close>

definition edge_toggles :: "real \<times> real \<Rightarrow> real \<times> real \<Rightarrow> real \<times> real \<Rightarrow> bool" where
  "edge_toggles pt p1 p2 =
     (let la = fst pt; lo = snd pt;
          p1_lat = fst p1; p1_lon = snd p1; p2_lat = fst p2; p2_lon = snd p2
      in lo > min p1_lon p2_lon \<and> lo \<le> max p1_lon p2_lon \<and> la \<le> max p1_lat p2_lat \<and>
         (let xinters = (lo - p1_lon) * (p2_lat - p1_lat) / (p2_lon - p1_lon) + p1_lat
          in p1_lat = p2_lat \<or> la \<le> xinters))"

text \<open>The loop \<^verbatim>\<open>for i in range(1, n + 1)\<close>, carrying \<^verbatim>\<open>p1\<close> and \<^verbatim>\<open>inside\<close>.\<close>

fun pip_loop :: "real \<times> real \<Rightarrow> (real \<times> real) list \<Rightarrow> nat \<Rightarrow> nat \<Rightarrow> real \<times> real \<Rightarrow> bool \<Rightarrow> bool" where
  "pip_loop pt poly i 0 p1 inside = inside"
| "pip_loop pt poly i (Suc k) p1 inside =
     (let p2 = poly ! (i mod length poly)
      in pip_loop pt poly (Suc i) k p2 (if edge_toggles pt p1 p2 then \<not> inside else inside))"

definition point_in_polygon :: "real \<times> real \<Rightarrow> (real \<times> real) list \<Rightarrow> py_error + bool" where
  "point_in_polygon pt poly =
     (case poly of
        [] \<Rightarrow> Inl IndexError
      | p1 # _ \<Rightarrow> Inr (pip_loop pt poly 1 (length poly) p1 False))"

fun any_zone_contains :: "real \<times> real \<Rightarrow> Zone list \<Rightarrow> py_error + bool" where
  "any_zone_contains pt [] = Inr False"
| "any_zone_contains pt (z # zs) =
     ebind (point_in_polygon pt (polygon z))
       (\<lambda>hit. if hit then Inr True else any_zone_contains pt zs)"

definition is_in_no_fly_zone :: "'a Position_scheme \<Rightarrow> py_error + bool" where
  "is_in_no_fly_zone p = any_zone_contains (latitude p, longitude p) NO_FLY_ZONES"

definition mult_max :: "multiplier \<Rightarrow> multiplier \<Rightarrow> multiplier" where
  "mult_max a b =
     (case a of PInf \<Rightarrow> PInf
      | Fin x \<Rightarrow> (case b of PInf \<Rightarrow> PInf | Fin y \<Rightarrow> Fin (max x y)))"

fun sensitive_loop :: "real \<times> real \<Rightarrow> Zone list \<Rightarrow> multiplier \<Rightarrow> py_error + multiplier" where
  "sensitive_loop pt [] max_multiplier = Inr max_multiplier"
| "sensitive_loop pt (a # as) max_multiplier =
     ebind (point_in_polygon pt (polygon a))
       (\<lambda>hit. sensitive_loop pt as
                 (if hit then mult_max max_multiplier (cost_multiplier a) else max_multiplier))"

definition get_position_cost_multiplier :: "'a Position_scheme \<Rightarrow> py_error + multiplier" where
  "get_position_cost_multiplier p =
     (let pt = (latitude p, longitude p)
      in ebind (any_zone_contains pt NO_FLY_ZONES)
           (\<lambda>hit. if hit then Inr PInf else sensitive_loop pt SENSITIVE_AREAS (Fin 1)))"

text \<open>Python's \<^verbatim>\<open>%\<close> on floats with a positive modulus.\<close>

definition py_fmod :: "real \<Rightarrow> real \<Rightarrow> real" where
  "py_fmod x m = x - of_int \<lfloor>x / m\<rfloor> * m"

text \<open>\<^verbatim>\<open>min(xs, key=...)\<close> returns the first element with the least key.\<close>

fun min_by :: "('a \<Rightarrow> real) \<Rightarrow> 'a \<Rightarrow> 'a list \<Rightarrow> 'a" where
  "min_by key best [] = best"
| "min_by key best (x # xs) = min_by key (if key x < key best then x else best) xs"

definition get_safe_altitude_for_direction :: "real \<Rightarrow> real \<Rightarrow> real" where
  "get_safe_altitude_for_direction heading0 current_altitude =
     (let hdg = py_fmod heading0 360;
          direction =
            (if 315 \<le> hdg \<or> hdg < 45 then ''NORTH''
             else if 45 \<le> hdg \<and> hdg < 135 then ''EAST''
             else if 135 \<le> hdg \<and> hdg < 225 then ''SOUTH''
             else ''WEST'');
          available_altitudes =
            (case map_of DIRECTION_ALTITUDE_MAP direction of
               Some alts \<Rightarrow> alts | None \<Rightarrow> ALTITUDE_LAYERS)
      in min_by (\<lambda>a. \<bar>a - current_altitude\<bar>) (hd available_altitudes) (tl available_altitudes))"

definition is_within_operational_area :: "'a Position_scheme \<Rightarrow> bool" where
  "is_within_operational_area p =
     (let bounds = OPERATIONAL_AREA
      in if latitude p < min_lat bounds \<or> latitude p > max_lat bounds then False
         else if longitude p < min_lon bounds \<or> longitude p > max_lon bounds then False
         else True)"

section \<open>pathfinding.py\<close>

subsection \<open>Geodesy\<close>

definition radians :: "real \<Rightarrow> real" where
  "radians x = x * pi / 180"

definition degrees :: "real \<Rightarrow> real" where
  "degrees x = x * 180 / pi"

text \<open>\<^verbatim>\<open>math.atan2(y, x)\<close> on the reals.\<close>

definition atan2 :: "real \<Rightarrow> real \<Rightarrow> real" where
  "atan2 y x =
     (if x > 0 then arctan (y / x)
      else if x < 0 then (if y \<ge> 0 then arctan (y / x) + pi else arctan (y / x) - pi)
      else if y > 0 then pi / 2
      else if y < 0 then - pi / 2
      else 0)"

definition haversine_distance :: "real \<Rightarrow> real \<Rightarrow> real \<Rightarrow> real \<Rightarrow> real" where
  "haversine_distance lat1 lon1 lat2 lon2 =
     (let R = 6371000;
          phi1 = radians lat1;
          phi2 = radians lat2;
          delta_phi = radians (lat2 - lat1);
          delta_lambda = radians (lon2 - lon1);
          a = (sin (delta_phi / 2))\<^sup>2 + cos phi1 * cos phi2 * (sin (delta_lambda / 2))\<^sup>2;
          c = 2 * atan2 (sqrt a) (sqrt (1 - a))
      in R * c)"

definition distance_3d :: "real \<Rightarrow> real \<Rightarrow> real \<Rightarrow> real \<Rightarrow> real \<Rightarrow> real \<Rightarrow> real" where
  "distance_3d lat1 lon1 alt1 lat2 lon2 alt2 =
     (let horizontal = haversine_distance lat1 lon1 lat2 lon2;
          vertical = \<bar>alt2 - alt1\<bar>
      in sqrt (horizontal\<^sup>2 + vertical\<^sup>2))"

definition calculate_heading :: "real \<Rightarrow> real \<Rightarrow> real \<Rightarrow> real \<Rightarrow> real" where
  "calculate_heading lat1 lon1 lat2 lon2 =
     (let lat1_rad = radians lat1;
          lat2_rad = radians lat2;
          delta_lon = radians (lon2 - lon1);
          x = sin delta_lon * cos lat2_rad;
          y = cos lat1_rad * sin lat2_rad - sin lat1_rad * cos lat2_rad * cos delta_lon;
          hdg = degrees (atan2 x y)
      in py_fmod (hdg + 360) 360)"

subsection \<open>Search nodes\<close>

text \<open>
  A node carries its parent by reference; the parent chain is a finite tree path, so the
  node is a recursive datatype. The selectors are prefixed with \<open>n_\<close>.
\<close>

datatype Node4D =
  Node4D (n_lat: real) (n_lon: real) (n_alt: real) (n_time: real)
         (n_parent: "Node4D option") (n_g: real) (n_h: real) (n_f: real)

definition node_lt :: "Node4D \<Rightarrow> Node4D \<Rightarrow> bool" where
  "node_lt a b \<longleftrightarrow> n_f a < n_f b"

definition node_eq :: "Node4D \<Rightarrow> Node4D \<Rightarrow> bool" where
  "node_eq a b \<longleftrightarrow>
     \<bar>n_lat a - n_lat b\<bar> < 0.0001 \<and> \<bar>n_lon a - n_lon b\<bar> < 0.0001 \<and> \<bar>n_alt a - n_alt b\<bar> < 5.0"

definition to_position :: "Node4D \<Rightarrow> py_error + Position" where
  "to_position n = mk_Position (n_lat n) (n_lon n) (n_alt n)"

definition py_div :: "real \<Rightarrow> real \<Rightarrow> py_error + real" where
  "py_div a b = (if b = 0 then Inl ZeroDivisionError else Inr (a / b))"

text \<open>
  \<^verbatim>\<open>round(x, ndigits)\<close> rounds the exact value of the float to the nearest multiple of
  \<open>10\<^sup>-\<^sup>n\<close>, ties to the even multiple.
\<close>

definition round_half_even :: "real \<Rightarrow> int" where
  "round_half_even r =
     (let fl = \<lfloor>r\<rfloor>; d = r - of_int fl
      in if d < 1 / 2 then fl
         else if d > 1 / 2 then fl + 1
         else if even fl then fl else fl + 1)"

definition py_round :: "real \<Rightarrow> nat \<Rightarrow> real" where
  "py_round x ndigits = of_int (round_half_even (x * 10 ^ ndigits)) / 10 ^ ndigits"

text \<open>
  The builtin \<^verbatim>\<open>hash\<close> on a float, as the language reference defines it for a rational
  \<open>m / n\<close>: \<open>m \<sqdot> n\<^sup>-\<^sup>1\<close> modulo the prime \<open>2\<^sup>6\<^sup>1 - 1\<close>, negated for a negative number,
  and \<open>-2\<close> in place of \<open>-1\<close>. A double is \<open>m / 2\<^sup>e\<close> with \<open>e \<le> 1074\<close>, and the inverse
  of \<open>2\<^sup>e\<close> modulo the prime is \<open>2\<close> to the power \<open>-e\<close> modulo 61.
\<close>

definition py_hash_modulus :: int where
  "py_hash_modulus = 2 ^ 61 - 1"

function frac_bits :: "real \<Rightarrow> nat \<Rightarrow> nat \<Rightarrow> nat" where
  "frac_bits x e fuel =
     (if x * 2 ^ e = of_int \<lfloor>x * 2 ^ e\<rfloor> \<or> fuel = 0 then e
      else frac_bits x (Suc e) (fuel - 1))"
  by pat_completeness auto
termination
  by (relation "measure (\<lambda>(x, e, fuel). fuel)") auto

declare frac_bits.simps [simp del]

definition py_hash_float :: "real \<Rightarrow> int" where
  "py_hash_float x =
     (let e = frac_bits \<bar>x\<bar> 0 1074;
          m = \<lfloor>\<bar>x\<bar> * 2 ^ e\<rfloor>;
          hash_value = (m mod py_hash_modulus) * 2 ^ ((61 - e mod 61) mod 61) mod py_hash_modulus;
          signed = (if x < 0 then - hash_value else hash_value)
      in if signed = - 1 then - 2 else signed)"

text \<open>
  The builtin \<^verbatim>\<open>hash\<close> on a tuple (CPython, 64 bit): the hashes of the items are mixed
  into an accumulator with wrap-around arithmetic.
\<close>

definition XXPRIME_1 :: "64 word" where "XXPRIME_1 = 11400714785074694791"
definition XXPRIME_2 :: "64 word" where "XXPRIME_2 = 14029467366897019727"
definition XXPRIME_5 :: "64 word" where "XXPRIME_5 = 2870177450012600261"

definition xxrotate :: "64 word \<Rightarrow> 64 word" where
  "xxrotate x = push_bit 31 x OR drop_bit 33 x"

fun tuplehash_loop :: "64 word \<Rightarrow> int list \<Rightarrow> 64 word" where
  "tuplehash_loop acc [] = acc"
| "tuplehash_loop acc (lane # lanes) =
     tuplehash_loop (xxrotate (acc + word_of_int lane * XXPRIME_2) * XXPRIME_1) lanes"

definition py_hash_tuple :: "real list \<Rightarrow> 64 word" where
  "py_hash_tuple items =
     (let acc = tuplehash_loop XXPRIME_5 (map py_hash_float items);
          acc' = acc + (word_of_nat (length items) XOR (XXPRIME_5 XOR 3527539))
      in if acc' = - 1 then 1546275796 else acc')"

text \<open>\<^verbatim>\<open>__hash__\<close>: the hash of the tuple of rounded coordinates.\<close>

definition rounded_tuple :: "Node4D \<Rightarrow> real \<times> real \<times> real" where
  "rounded_tuple n = (py_round (n_lat n) 4, py_round (n_lon n) 4, py_round (n_alt n) 0)"

definition node_hash :: "Node4D \<Rightarrow> 64 word" where
  "node_hash n = (case rounded_tuple n of (a, b, c) \<Rightarrow> py_hash_tuple [a, b, c])"

text \<open>
  The closed set is a Python \<^verbatim>\<open>set\<close> of nodes: \<^verbatim>\<open>x in s\<close> holds when some member
  has the hash of \<open>x\<close> and compares equal to it with \<^verbatim>\<open>__eq__\<close>.
\<close>

definition same_node :: "Node4D \<Rightarrow> Node4D \<Rightarrow> bool" where
  "same_node a b \<longleftrightarrow> node_hash a = node_hash b \<and> node_eq a b"

definition in_closed :: "Node4D \<Rightarrow> Node4D list \<Rightarrow> bool" where
  "in_closed n closed_set = list_ex (\<lambda>e. same_node e n) closed_set"

definition closed_add :: "Node4D \<Rightarrow> Node4D list \<Rightarrow> Node4D list" where
  "closed_add n closed_set = (if in_closed n closed_set then closed_set else closed_set @ [n])"

subsection \<open>Neighbour generation\<close>

definition neighbor_candidate :: "Node4D \<Rightarrow> real \<times> real \<Rightarrow> real \<Rightarrow> py_error + Node4D option" where
  "neighbor_candidate node d al =
     (let new_lat = n_lat node + fst d;
          new_lon = n_lon node + snd d
      in ebind (mk_Position new_lat new_lon al)
           (\<lambda>p. if \<not> is_within_operational_area p then Inr None
                else
                  let dist = distance_3d (n_lat node) (n_lon node) (n_alt node) new_lat new_lon al;
                      speed0 = (if \<bar>al - n_alt node\<bar> > 5
                                then DRONE_CRUISE_SPEED * 0.8 else DRONE_CRUISE_SPEED);
                      time_increment = dist / speed0;
                      new_time = n_time node + time_increment
                  in Inr (Some (Node4D new_lat new_lon al new_time (Some node) 0 0 0))))"

fun neighbors_loop :: "Node4D \<Rightarrow> ((real \<times> real) \<times> real) list \<Rightarrow> Node4D list \<Rightarrow> py_error + Node4D list" where
  "neighbors_loop node [] neighbors = Inr neighbors"
| "neighbors_loop node ((d, al) # rest) neighbors =
     ebind (neighbor_candidate node d al)
       (\<lambda>r. neighbors_loop node rest
               (case r of None \<Rightarrow> neighbors | Some nb \<Rightarrow> neighbors @ [nb]))"

definition get_neighbors :: "Node4D \<Rightarrow> real \<Rightarrow> real \<Rightarrow> py_error + Node4D list" where
  "get_neighbors node goal_lat goal_lon =
     (let hdg = calculate_heading (n_lat node) (n_lon node) goal_lat goal_lon;
          optimal_altitude = get_safe_altitude_for_direction hdg (n_alt node);
          lat_step = GRID_RESOLUTION / 111320
      in ebind (py_div GRID_RESOLUTION (111320 * cos (radians (n_lat node))))
           (\<lambda>lon_step.
              let directions =
                    [(lat_step, 0), (lat_step, lon_step), (0, lon_step), (- lat_step, lon_step),
                     (- lat_step, 0), (- lat_step, - lon_step), (0, - lon_step),
                     (lat_step, - lon_step)];
                  altitude_options =
                    (if \<bar>optimal_altitude - n_alt node\<bar> > 10
                     then [n_alt node, optimal_altitude, (n_alt node + optimal_altitude) / 2]
                     else [n_alt node])
              in neighbors_loop node (List.product directions altitude_options) []))"

definition heuristic :: "Node4D \<Rightarrow> Position \<Rightarrow> real" where
  "heuristic node goal =
     distance_3d (n_lat node) (n_lon node) (n_alt node)
                 (latitude goal) (longitude goal) (altitude goal) / DRONE_MAX_SPEED"

fun path_to_root :: "Node4D \<Rightarrow> Node4D list" where
  "path_to_root (Node4D la lo al t None gg hh ff) = [Node4D la lo al t None gg hh ff]"
| "path_to_root (Node4D la lo al t (Some p) gg hh ff) =
     Node4D la lo al t (Some p) gg hh ff # path_to_root p"

definition reconstruct_path :: "Node4D \<Rightarrow> Node4D list" where
  "reconstruct_path node = rev (path_to_root node)"

subsection \<open>Trajectory synthesis\<close>

fun waypoints_loop :: "Node4D list \<Rightarrow> Waypoint list \<Rightarrow> real \<Rightarrow> py_error + (Waypoint list \<times> real)" where
  "waypoints_loop [] wps tdist = Inr (wps, tdist)"
| "waypoints_loop (node # rest) wps tdist =
     (let (speed0, heading0, tdist') =
            (case rest of
               next_node # _ \<Rightarrow>
                 let distance = distance_3d (n_lat node) (n_lon node) (n_alt node)
                                  (n_lat next_node) (n_lon next_node) (n_alt next_node);
                     time_diff = n_time next_node - n_time node
                 in (if time_diff > 0 then distance / time_diff else DRONE_CRUISE_SPEED,
                     calculate_heading (n_lat node) (n_lon node) (n_lat next_node) (n_lon next_node),
                     tdist + distance)
             | [] \<Rightarrow> (0, 0, tdist))
      in ebind (to_position node)
           (\<lambda>p. waypoints_loop rest
                   (wps @ [\<lparr>position = p, eta = n_time node,
                            speed = min speed0 DRONE_MAX_SPEED, heading = heading0\<rparr>])
                   tdist'))"

definition nodes_to_trajectory :: "Node4D list \<Rightarrow> py_error + Trajectory" where
  "nodes_to_trajectory nodes =
     ebind (waypoints_loop nodes [] 0)
       (\<lambda>(wps, tdist).
          case nodes of
            [] \<Rightarrow> Inl IndexError
          | _ \<Rightarrow>
            let total_time0 = n_time (last nodes) - n_time (hd nodes);
                battery_usage =
                  total_time0 * DRONE_POWER_CONSUMPTION / DRONE_BATTERY_CAPACITY * 100
            in Inr \<lparr>waypoints = wps, total_distance = tdist, total_time = total_time0,
                    estimated_battery_usage = battery_usage\<rparr>)"

subsection \<open>The open set: \<^verbatim>\<open>heapq\<close> on a list\<close>

text \<open>
  The binary heap of the standard library, ordered by \<^verbatim>\<open>__lt__\<close>: \<^verbatim>\<open>_siftdown\<close> moves
  the item at \<open>pos\<close> towards the root, \<^verbatim>\<open>_siftup\<close> moves the smaller child up until a
  leaf is reached and then sifts the item down again.
\<close>

function siftdown_loop :: "Node4D list \<Rightarrow> nat \<Rightarrow> nat \<Rightarrow> Node4D \<Rightarrow> Node4D list" where
  "siftdown_loop heap startpos pos newitem =
     (if pos > startpos then
        (let parentpos = (pos - 1) div 2;
             parent = heap ! parentpos
         in if node_lt newitem parent
            then siftdown_loop (heap[pos := parent]) startpos parentpos newitem
            else heap[pos := newitem])
      else heap[pos := newitem])"
  by pat_completeness auto
termination
  by (relation "measure (\<lambda>(heap, startpos, pos, newitem). pos)") auto

declare siftdown_loop.simps [simp del]

definition siftdown :: "Node4D list \<Rightarrow> nat \<Rightarrow> nat \<Rightarrow> Node4D list" where
  "siftdown heap startpos pos = siftdown_loop heap startpos pos (heap ! pos)"

definition heappush :: "Node4D list \<Rightarrow> Node4D \<Rightarrow> Node4D list" where
  "heappush heap item = siftdown (heap @ [item]) 0 (length heap)"

function siftup_loop :: "Node4D list \<Rightarrow> nat \<Rightarrow> Node4D list \<times> nat" where
  "siftup_loop heap pos =
     (let childpos = 2 * pos + 1 in
      if childpos < length heap then
        (let rightpos = childpos + 1;
             c = (if rightpos < length heap \<and> \<not> node_lt (heap ! childpos) (heap ! rightpos)
                  then rightpos else childpos)
         in siftup_loop (heap[pos := heap ! c]) c)
      else (heap, pos))"
  by pat_completeness auto
termination
  by (relation "measure (\<lambda>(heap, pos). length heap - pos)") auto

declare siftup_loop.simps [simp del]

definition siftup :: "Node4D list \<Rightarrow> nat \<Rightarrow> Node4D list" where
  "siftup heap pos =
     (let newitem = heap ! pos;
          (heap', pos') = siftup_loop heap pos
      in siftdown (heap'[pos' := newitem]) pos pos')"

definition heappop :: "Node4D list \<Rightarrow> py_error + (Node4D \<times> Node4D list)" where
  "heappop heap =
     (case heap of
        [] \<Rightarrow> Inl IndexError
      | _ \<Rightarrow>
        (let lastelt = last heap; heap' = butlast heap
         in if heap' \<noteq> []
            then Inr (heap' ! 0, siftup (heap'[0 := lastelt]) 0)
            else Inr (lastelt, heap')))"

subsection \<open>The search\<close>

definition max_iterations :: nat where
  "max_iterations = 200000"

text \<open>The body of \<^verbatim>\<open>for neighbor in get_neighbors(...)\<close>: the open set is threaded.\<close>

fun expand :: "Position \<Rightarrow> Node4D \<Rightarrow> Node4D list \<Rightarrow> Node4D list \<Rightarrow> Node4D list \<Rightarrow> py_error + Node4D list" where
  "expand goal current closed_set [] open_set = Inr open_set"
| "expand goal current closed_set (neighbor # rest) open_set =
     (if in_closed neighbor closed_set then expand goal current closed_set rest open_set
      else
        let move_cost = distance_3d (n_lat current) (n_lon current) (n_alt current)
                          (n_lat neighbor) (n_lon neighbor) (n_alt neighbor)
        in ebind (to_position neighbor)
             (\<lambda>p. ebind (get_position_cost_multiplier p)
                (\<lambda>cm. case cm of
                     PInf \<Rightarrow> expand goal current closed_set rest open_set
                   | Fin m \<Rightarrow>
                       let tentative_g = n_g current + move_cost * m;
                           hh = heuristic neighbor goal;
                           neighbor' = Node4D (n_lat neighbor) (n_lon neighbor) (n_alt neighbor)
                                         (n_time neighbor) (Some current)
                                         tentative_g hh (tentative_g + hh)
                       in expand goal current closed_set rest (heappush open_set neighbor'))))"

text \<open>
  The \<^verbatim>\<open>while\<close> loop. Besides the result it returns the value of \<^verbatim>\<open>iterations\<close> (the
  number of heap pops) and the open set at the moment the loop is left.
\<close>

function astar_loop ::
  "Position \<Rightarrow> Node4D list \<Rightarrow> Node4D list \<Rightarrow> nat \<Rightarrow> (py_error + Trajectory option) \<times> nat \<times> Node4D list" where
  "astar_loop goal open_set closed_set iterations =
     (if open_set \<noteq> [] \<and> iterations < max_iterations then
        (case heappop open_set of
           Inl e \<Rightarrow> (Inl e, Suc iterations, open_set)
         | Inr (current, open1) \<Rightarrow>
             let goal_distance = distance_3d (n_lat current) (n_lon current) (n_alt current)
                                   (latitude goal) (longitude goal) (altitude goal)
             in if goal_distance < GRID_RESOLUTION * 1.5
                then (ebind (nodes_to_trajectory (reconstruct_path current)) (\<lambda>t. Inr (Some t)),
                      Suc iterations, open1)
                else
                  let closed1 = closed_add current closed_set
                  in (case ebind (get_neighbors current (latitude goal) (longitude goal))
                             (\<lambda>nbs. expand goal current closed1 nbs open1) of
                        Inl e \<Rightarrow> (Inl e, Suc iterations, open1)
                      | Inr open2 \<Rightarrow> astar_loop goal open2 closed1 (Suc iterations)))
      else (Inr None, iterations, open_set))"
  by pat_completeness auto
termination
  by (relation "measure (\<lambda>(goal, open_set, closed_set, iterations). max_iterations - iterations)")
     auto

declare astar_loop.simps [simp del]

text \<open>
  \<^verbatim>\<open>start_node.h\<close> and \<^verbatim>\<open>start_node.f\<close> are assigned after the push; the heap holds
  the same object, and a push onto the empty heap compares nothing.
\<close>

definition plan_trajectory_run ::
  "Position \<Rightarrow> Position \<Rightarrow> real \<Rightarrow> (py_error + Trajectory option) \<times> nat \<times> Node4D list" where
  "plan_trajectory_run start goal start_time =
     (let initial_heading = calculate_heading (latitude start) (longitude start)
                              (latitude goal) (longitude goal);
          start_altitude = get_safe_altitude_for_direction initial_heading (altitude start);
          start_node0 = Node4D (latitude start) (longitude start) start_altitude start_time
                          None 0 0 0;
          hh = heuristic start_node0 goal;
          start_node = Node4D (latitude start) (longitude start) start_altitude start_time
                         None 0 hh hh
      in astar_loop goal (heappush [] start_node) [] 0)"

definition plan_trajectory :: "Position \<Rightarrow> Position \<Rightarrow> real \<Rightarrow> py_error + Trajectory option" where
  "plan_trajectory start goal start_time = fst (plan_trajectory_run start goal start_time)"

section \<open>conflict\_detection.py\<close>

text \<open>
  The names bound at module level: the imports, then the two classes. A name that is
  neither here nor a builtin raises \<^verbatim>\<open>NameError\<close> when it is evaluated.
\<close>

definition conflict_detection_globals :: "string list" where
  "conflict_detection_globals =
     [''List'', ''Tuple'', ''Optional'',
      ''Trajectory'', ''Waypoint'', ''Position4D'', ''ConflictAlert'',
      ''config'', ''pathfinding'', ''time'', ''uuid'',
      ''ConflictDetector'', ''ConflictResolver'']"

definition global_lookup :: "string \<Rightarrow> py_error + unit" where
  "global_lookup name =
     (if name \<in> set conflict_detection_globals then Inr () else Inl (NameError name))"

subsection \<open>ConflictDetector\<close>

fun interpolate_position :: "Waypoint list \<Rightarrow> real \<Rightarrow> py_error + Position4D option" where
  "interpolate_position (w1 # w2 # rest) t =
     (if eta w1 \<le> t \<and> t \<le> eta w2 then
        (let t_ratio = (if eta w2 \<noteq> eta w1 then (t - eta w1) / (eta w2 - eta w1) else 0);
             la = latitude (position w1)
                    + t_ratio * (latitude (position w2) - latitude (position w1));
             lo = longitude (position w1)
                    + t_ratio * (longitude (position w2) - longitude (position w1));
             al = altitude (position w1)
                    + t_ratio * (altitude (position w2) - altitude (position w1))
         in ebind (mk_Position4D la lo al t) (\<lambda>p. Inr (Some p)))
      else interpolate_position (w2 # rest) t)"
| "interpolate_position ws t = Inr None"

definition assess_severity :: "real \<Rightarrow> real \<Rightarrow> string" where
  "assess_severity horizontal_dist vertical_dist =
     (if horizontal_dist < HORIZONTAL_SEPARATION / 2 then ''critical''
      else if horizontal_dist < HORIZONTAL_SEPARATION * 0.75 then ''warning''
      else ''minor'')"

lemma scan_measure_step:
  "\<lfloor>(t_end - (ct + TIME_RESOLUTION)) / 5\<rfloor> + 1 \<le> \<lfloor>(t_end - ct) / 5\<rfloor>" for ct t_end :: real
proof -
  have "(t_end - (ct + TIME_RESOLUTION)) / 5 = (t_end - ct) / 5 - 1"
    by (simp add: TIME_RESOLUTION_def field_simps)
  then have "\<lfloor>(t_end - (ct + TIME_RESOLUTION)) / 5\<rfloor> = \<lfloor>(t_end - ct) / 5 - 1\<rfloor>"
    by (rule arg_cong)
  also have "\<dots> = \<lfloor>(t_end - ct) / 5\<rfloor> - 1"
    by (rule floor_diff_one)
  finally show ?thesis by simp
qed

text \<open>
  The sampling loop \<^verbatim>\<open>while current_time <= t_end\<close>. The conflict identifier is a fresh
  UUID, taken here as the argument \<open>uid\<close>.
\<close>

function conflict_scan ::
  "string \<Rightarrow> string \<Rightarrow> Trajectory \<Rightarrow> string \<Rightarrow> Trajectory \<Rightarrow> real \<Rightarrow> real
     \<Rightarrow> py_error + ConflictAlert option" where
  "conflict_scan uid drone_1 traj_1 drone_2 traj_2 t_end current_time =
     (if current_time \<le> t_end then
        ebind (interpolate_position (waypoints traj_1) current_time)
          (\<lambda>pos_1. ebind (interpolate_position (waypoints traj_2) current_time)
             (\<lambda>pos_2.
                case (pos_1, pos_2) of
                  (Some p1, Some p2) \<Rightarrow>
                    (let horizontal_dist = haversine_distance (latitude p1) (longitude p1)
                                             (latitude p2) (longitude p2);
                         vertical_dist = \<bar>altitude p1 - altitude p2\<bar>
                     in if horizontal_dist < HORIZONTAL_SEPARATION
                           \<and> vertical_dist < VERTICAL_SEPARATION
                        then Inr (Some \<lparr>conflict_id = uid, drone_1_id = drone_1,
                                        drone_2_id = drone_2,
                                        conflict_position = Position.truncate p1,
                                        conflict_time = current_time,
                                        severity = assess_severity horizontal_dist vertical_dist,
                                        resolution_action = None\<rparr>)
                        else conflict_scan uid drone_1 traj_1 drone_2 traj_2 t_end
                               (current_time + TIME_RESOLUTION))
                | _ \<Rightarrow> conflict_scan uid drone_1 traj_1 drone_2 traj_2 t_end
                         (current_time + TIME_RESOLUTION)))
      else Inr None)"
  by pat_completeness auto
termination
  apply (relation "measure (\<lambda>(uid, d1, t1, d2, t2, t_end, ct). nat (\<lfloor>(t_end - ct) / 5\<rfloor> + 1))")
     apply simp_all
    apply (rule scan_measure_step)+
  done

declare conflict_scan.simps [simp del]

definition check_trajectory_conflict ::
  "string \<Rightarrow> string \<Rightarrow> Trajectory \<Rightarrow> string \<Rightarrow> Trajectory \<Rightarrow> py_error + ConflictAlert option" where
  "check_trajectory_conflict uid drone_1 traj_1 drone_2 traj_2 =
     (if waypoints traj_1 = [] \<or> waypoints traj_2 = [] then Inl IndexError
      else
        let t_start = max (eta (hd (waypoints traj_1))) (eta (hd (waypoints traj_2)));
            t_end = min (eta (last (waypoints traj_1))) (eta (last (waypoints traj_2)))
        in if t_start \<ge> t_end then Inr None
           else conflict_scan uid drone_1 traj_1 drone_2 traj_2 t_end t_start)"

subsection \<open>ConflictResolver\<close>

text \<open>
  In \<^verbatim>\<open>adjust_speed\<close> the list \<^verbatim>\<open>new_waypoints\<close> holds one entry per waypoint already
  visited, so \<^verbatim>\<open>i > 0\<close> is \<open>new_waypoints \<noteq> []\<close> and \<^verbatim>\<open>new_waypoints[i - 1]\<close> is its
  last entry.
\<close>

definition adjust_speed_step :: "real \<Rightarrow> Waypoint list \<Rightarrow> Waypoint \<Rightarrow> Waypoint" where
  "adjust_speed_step ct new_waypoints waypoint =
     (let time_shift = TIME_RESOLUTION * 3 in
      if eta waypoint < ct then
        (let reduction_factor = 0.7;
             new_speed = max (speed waypoint * reduction_factor) DRONE_MIN_SPEED;
             new_eta =
               (if new_waypoints \<noteq> [] then
                  (let prev_wp = last new_waypoints;
                       distance = distance_3d
                         (latitude (position prev_wp)) (longitude (position prev_wp))
                         (altitude (position prev_wp))
                         (latitude (position waypoint)) (longitude (position waypoint))
                         (altitude (position waypoint))
                   in eta prev_wp + distance / new_speed)
                else eta waypoint)
         in \<lparr>position = position waypoint, eta = new_eta, speed = new_speed,
             heading = heading waypoint\<rparr>)
      else
        (let new_eta =
               (if new_waypoints \<noteq> [] then
                  (let prev_wp = last new_waypoints;
                       distance = distance_3d
                         (latitude (position prev_wp)) (longitude (position prev_wp))
                         (altitude (position prev_wp))
                         (latitude (position waypoint)) (longitude (position waypoint))
                         (altitude (position waypoint))
                   in eta prev_wp + distance / DRONE_CRUISE_SPEED)
                else eta waypoint + time_shift)
         in \<lparr>position = position waypoint, eta = new_eta, speed = DRONE_CRUISE_SPEED,
             heading = heading waypoint\<rparr>))"

fun adjust_speed_loop :: "real \<Rightarrow> Waypoint list \<Rightarrow> Waypoint list \<Rightarrow> Waypoint list" where
  "adjust_speed_loop ct [] new_waypoints = new_waypoints"
| "adjust_speed_loop ct (waypoint # rest) new_waypoints =
     adjust_speed_loop ct rest (new_waypoints @ [adjust_speed_step ct new_waypoints waypoint])"

definition adjust_speed :: "Trajectory \<Rightarrow> ConflictAlert \<Rightarrow> py_error + Trajectory" where
  "adjust_speed traj conflict =
     (let new_waypoints = adjust_speed_loop (conflict_time conflict) (waypoints traj) []
      in if new_waypoints = [] then Inl IndexError
         else
           let total_time0 = eta (last new_waypoints) - eta (hd new_waypoints);
               battery_usage =
                 total_time0 * DRONE_POWER_CONSUMPTION / DRONE_BATTERY_CAPACITY * 100
           in Inr \<lparr>waypoints = new_waypoints, total_distance = total_distance traj,
                   total_time = total_time0, estimated_battery_usage = battery_usage\<rparr>)"

text \<open>
  \<^verbatim>\<open>adjust_altitude\<close> evaluates the name \<^verbatim>\<open>Position\<close> once per waypoint, inside the
  loop body, before it builds the new waypoint.
\<close>

fun adjust_altitude_loop :: "Waypoint list \<Rightarrow> Waypoint list \<Rightarrow> py_error + Waypoint list" where
  "adjust_altitude_loop [] new_waypoints = Inr new_waypoints"
| "adjust_altitude_loop (waypoint # rest) new_waypoints =
     (let altitude_shift = VERTICAL_SEPARATION + 5;
          new_altitude = min (altitude (position waypoint) + altitude_shift) DRONE_MAX_ALTITUDE
      in ebind (global_lookup ''Position'')
           (\<lambda>_. ebind (mk_Position (latitude (position waypoint))
                          (longitude (position waypoint)) new_altitude)
              (\<lambda>new_position.
                 adjust_altitude_loop rest
                   (new_waypoints @ [\<lparr>position = new_position, eta = eta waypoint,
                                       speed = speed waypoint, heading = heading waypoint\<rparr>]))))"

definition adjust_altitude :: "Trajectory \<Rightarrow> ConflictAlert \<Rightarrow> py_error + Trajectory" where
  "adjust_altitude traj conflict =
     ebind (adjust_altitude_loop (waypoints traj) [])
       (\<lambda>new_waypoints.
          Inr \<lparr>waypoints = new_waypoints, total_distance = total_distance traj,
               total_time = total_time traj,
               estimated_battery_usage = estimated_battery_usage traj\<rparr>)"

text \<open>The identifier of the alert is discarded here, so any \<open>uid\<close> gives the same result.\<close>

definition trajectories_conflict :: "Trajectory \<Rightarrow> Trajectory \<Rightarrow> py_error + bool" where
  "trajectories_conflict traj_1 traj_2 =
     ebind (check_trajectory_conflict [] ''test_1'' traj_1 ''test_2'' traj_2)
       (\<lambda>conflict. Inr (conflict \<noteq> None))"

text \<open>
  A \<^verbatim>\<open>Trajectory\<close> object is truthy, so \<^verbatim>\<open>modified_traj and not ...\<close> is decided by the
  conflict test alone.
\<close>

definition resolve_conflict ::
  "ConflictAlert \<Rightarrow> Trajectory \<Rightarrow> Trajectory \<Rightarrow> py_error + (Trajectory \<times> string)" where
  "resolve_conflict conflict traj_1 traj_2 =
     ebind (adjust_speed traj_1 conflict)
       (\<lambda>modified_traj. ebind (trajectories_conflict modified_traj traj_2)
          (\<lambda>still. if \<not> still then Inr (modified_traj, ''speed_adjustment'')
             else ebind (adjust_altitude traj_1 conflict)
               (\<lambda>modified_traj2. ebind (trajectories_conflict modified_traj2 traj_2)
                  (\<lambda>still2. if \<not> still2 then Inr (modified_traj2, ''altitude_change'')
                     else Inr (traj_1, ''replan_required'')))))"

section \<open>main.py\<close>

text \<open>
  The module-level tables are dictionaries, which keep insertion order: an association list,
  where \<^verbatim>\<open>d[k] = v\<close> replaces the value of a present key in place and appends an absent
  one. The messages handed to \<^verbatim>\<open>manager.broadcast\<close> and the calls of
  \<^verbatim>\<open>pathfinding.plan_trajectory\<close> are recorded in two logs, so that "nothing was sent" and
  "the planner was not invoked" are statements about the state.
\<close>

record SystemStats =
  total_missions :: int
  completed_missions :: int
  conflicts_detected :: int
  conflicts_resolved :: int
  active_drones_count :: int

datatype broadcast_message =
    ConflictResolvedMessage ConflictAlert string
  | MissionCreatedMessage Mission
  | TelemetryMessage Telemetry
  | DroneRegisteredMessage Telemetry

record ServerState =
  active_drones :: "(string \<times> Telemetry) list"
  active_missions :: "(string \<times> Mission) list"
  flight_plans :: "(string \<times> Trajectory) list"
  system_stats :: SystemStats
  broadcasts :: "broadcast_message list"
  planner_calls :: "(Position \<times> Position \<times> real) list"

definition initial_state :: ServerState where
  "initial_state =
     \<lparr>active_drones = [], active_missions = [], flight_plans = [],
      system_stats = \<lparr>total_missions = 0, completed_missions = 0, conflicts_detected = 0,
                      conflicts_resolved = 0, active_drones_count = 0\<rparr>,
      broadcasts = [], planner_calls = []\<rparr>"

text \<open>
  What a handler reads from outside the program: the UUID of the mission, the three readings
  of \<^verbatim>\<open>time.time()\<close>, and the UUID drawn for an alert in the check against the flight plan
  of a given drone.
\<close>

record RequestEnv =
  uuid_hex :: string
  time_created :: real
  time_assigned :: real
  time_planning :: real
  conflict_uuid :: "string \<Rightarrow> string"

datatype response =
    Queued string
  | Assigned string string Trajectory nat
  | TelemetryOk
  | Registered string

definition broadcast :: "broadcast_message \<Rightarrow> ServerState \<Rightarrow> ServerState" where
  "broadcast message s = s\<lparr>broadcasts := broadcasts s @ [message]\<rparr>"

definition call_planner ::
  "Position \<Rightarrow> Position \<Rightarrow> real \<Rightarrow> ServerState \<Rightarrow> (py_error + Trajectory option) \<times> ServerState" where
  "call_planner start goal start_time s =
     (plan_trajectory start goal start_time,
      s\<lparr>planner_calls := planner_calls s @ [(start, goal, start_time)]\<rparr>)"

subsection \<open>detect\_mission\_conflicts\<close>

text \<open>
  The function reads \<^verbatim>\<open>new_mission.drone_id\<close> and \<^verbatim>\<open>new_mission.trajectory\<close>, which its only
  caller has assigned just before the call; they are the two arguments here, followed by the
  table \<^verbatim>\<open>flight_plans\<close>. A \<^verbatim>\<open>ConflictAlert\<close> object is truthy.
\<close>

fun detect_loop ::
  "(string \<Rightarrow> string) \<Rightarrow> string \<Rightarrow> Trajectory \<Rightarrow> (string \<times> Trajectory) list
     \<Rightarrow> ConflictAlert list \<Rightarrow> py_error + ConflictAlert list" where
  "detect_loop uid new_drone_id new_trajectory [] conflicts = Inr conflicts"
| "detect_loop uid new_drone_id new_trajectory ((drone_id', trajectory') # rest) conflicts =
     (if drone_id' \<noteq> new_drone_id then
        ebind (check_trajectory_conflict (uid drone_id') new_drone_id new_trajectory
                 drone_id' trajectory')
          (\<lambda>conflict.
             case conflict of
               Some c \<Rightarrow> detect_loop uid new_drone_id new_trajectory rest (conflicts @ [c])
             | None \<Rightarrow> detect_loop uid new_drone_id new_trajectory rest conflicts)
      else detect_loop uid new_drone_id new_trajectory rest conflicts)"

definition detect_mission_conflicts ::
  "(string \<Rightarrow> string) \<Rightarrow> string \<Rightarrow> Trajectory \<Rightarrow> (string \<times> Trajectory) list
     \<Rightarrow> py_error + ConflictAlert list" where
  "detect_mission_conflicts uid new_drone_id new_trajectory plans =
     detect_loop uid new_drone_id new_trajectory plans []"

subsection \<open>create\_delivery\_request\<close>

text \<open>The search for an idle drone: the first entry of \<^verbatim>\<open>active_drones\<close> with status idle.\<close>

fun find_idle_drone :: "(string \<times> Telemetry) list \<Rightarrow> string option" where
  "find_idle_drone [] = None"
| "find_idle_drone ((drone_id', telemetry) # rest) =
     (if t_status telemetry = IDLE then Some drone_id' else find_idle_drone rest)"

text \<open>
  The loop \<^verbatim>\<open>for conflict in conflicts\<close>. The resolver is a method of the module-level
  object \<^verbatim>\<open>conflict_resolver\<close>; the loop is written over it, and
  \<open>create_delivery_request\<close> below passes \<open>resolve_conflict\<close>. The second component is the
  state when the loop ends, also when it ends by an exception. The loop variable
  \<open>mission_trajectory\<close> is \<^verbatim>\<open>mission.trajectory\<close>.
\<close>

fun resolve_conflicts_loop ::
  "(ConflictAlert \<Rightarrow> Trajectory \<Rightarrow> Trajectory \<Rightarrow> py_error + Trajectory \<times> string)
     \<Rightarrow> ConflictAlert list \<Rightarrow> Trajectory \<Rightarrow> ServerState
     \<Rightarrow> (py_error + Trajectory) \<times> ServerState" where
  "resolve_conflicts_loop resolver [] mission_trajectory s = (Inr mission_trajectory, s)"
| "resolve_conflicts_loop resolver (conflict # rest) mission_trajectory s =
     (case map_of (flight_plans s) (drone_2_id conflict) of
        None \<Rightarrow> (Inl KeyError, s)
      | Some other_plan \<Rightarrow>
          (case resolver conflict mission_trajectory other_plan of
             Inl e \<Rightarrow> (Inl e, s)
           | Inr (resolved_trajectory, resolution_method) \<Rightarrow>
               resolve_conflicts_loop resolver rest resolved_trajectory
                 (broadcast (ConflictResolvedMessage conflict resolution_method)
                    (s\<lparr>system_stats := (system_stats s)
                          \<lparr>conflicts_detected := conflicts_detected (system_stats s) + 1,
                           conflicts_resolved := conflicts_resolved (system_stats s) + 1\<rparr>\<rparr>))))"

text \<open>
  The body of \<^verbatim>\<open>create_delivery_request\<close> is written in three parts, each defined before the
  part that runs it: \<open>create_delivery_request_deconflict\<close> is the end of the body, from the
  conflict check to the response; \<open>create_delivery_request_assign\<close> is the middle, the
  assignment of the drone, the two searches and the combined trajectory;
  \<open>create_delivery_request\<close> is the beginning, the four checks of the request, the mission
  and the choice of a drone. A \<^verbatim>\<open>Trajectory\<close> object is truthy, so
  \<^verbatim>\<open>not trajectory_to_pickup\<close> holds for \<^verbatim>\<open>None\<close> only; the empty string as the identifier of
  the drone found is falsy, as \<^verbatim>\<open>None\<close> is. The drone whose status is set at the end is in
  \<^verbatim>\<open>active_drones\<close>, where its position was read.
\<close>

definition create_delivery_request_deconflict ::
  "RequestEnv \<Rightarrow> Mission \<Rightarrow> string \<Rightarrow> Trajectory \<Rightarrow> ServerState
     \<Rightarrow> (py_error + response) \<times> ServerState" where
  "create_delivery_request_deconflict env mission available_drone mission_trajectory s =
     (case detect_mission_conflicts (conflict_uuid env) available_drone mission_trajectory
             (flight_plans s) of
        Inl e \<Rightarrow> (Inl e, s)
      | Inr conflicts \<Rightarrow>
          (case resolve_conflicts_loop resolve_conflict conflicts mission_trajectory s of
             (Inl e, s1) \<Rightarrow> (Inl e, s1)
           | (Inr final_trajectory, s1) \<Rightarrow>
               (let mission1 = mission\<lparr>trajectory := Some final_trajectory\<rparr>;
                    s2 = s1\<lparr>active_missions :=
                              AList.update (mission_id mission1) mission1 (active_missions s1),
                            flight_plans :=
                              AList.update available_drone final_trajectory (flight_plans s1),
                            system_stats := (system_stats s1)
                              \<lparr>total_missions := total_missions (system_stats s1) + 1\<rparr>,
                            active_drones :=
                              AList.map_entry available_drone (\<lambda>t. t\<lparr>t_status := ASSIGNED\<rparr>)
                                (active_drones s1)\<rparr>
                in (Inr (Assigned (mission_id mission1) available_drone final_trajectory
                           (length conflicts)),
                    broadcast (MissionCreatedMessage mission1) s2))))"

definition create_delivery_request_assign ::
  "RequestEnv \<Rightarrow> DeliveryRequest \<Rightarrow> Mission \<Rightarrow> string \<Rightarrow> ServerState
     \<Rightarrow> (py_error + response) \<times> ServerState" where
  "create_delivery_request_assign env request mission0 available_drone s =
     (let mission = mission0\<lparr>drone_id := Some available_drone,
                             assigned_at := Some (time_assigned env),
                             status := ASSIGNED\<rparr>
      in case map_of (active_drones s) available_drone of
           None \<Rightarrow> (Inl KeyError, s)
         | Some telemetry \<Rightarrow>
             (let current_position = t_position telemetry;
                  start_time = time_planning env
              in case call_planner current_position (pickup request) start_time s of
                   (Inl e, s1) \<Rightarrow> (Inl e, s1)
                 | (Inr None, s1) \<Rightarrow>
                     (Inl (HTTPException 500 ''Could not plan path to pickup location''), s1)
                 | (Inr (Some trajectory_to_pickup), s1) \<Rightarrow>
                     if waypoints trajectory_to_pickup = [] then (Inl IndexError, s1)
                     else
                       (let pickup_arrival_time = eta (last (waypoints trajectory_to_pickup))
                        in case call_planner (pickup request) (delivery request)
                                  (pickup_arrival_time + 30) s1 of
                             (Inl e, s2) \<Rightarrow> (Inl e, s2)
                           | (Inr None, s2) \<Rightarrow>
                               (Inl (HTTPException 500
                                       ''Could not plan path to delivery location''), s2)
                           | (Inr (Some trajectory_to_delivery), s2) \<Rightarrow>
                               if waypoints trajectory_to_delivery = [] then (Inl IndexError, s2)
                               else
                                 create_delivery_request_deconflict env mission available_drone
                                   \<lparr>waypoints = waypoints trajectory_to_pickup
                                                  @ waypoints trajectory_to_delivery,
                                    total_distance = total_distance trajectory_to_pickup
                                                       + total_distance trajectory_to_delivery,
                                    total_time = eta (last (waypoints trajectory_to_delivery))
                                                   - eta (hd (waypoints trajectory_to_pickup)),
                                    estimated_battery_usage =
                                      estimated_battery_usage trajectory_to_pickup
                                        + estimated_battery_usage trajectory_to_delivery\<rparr>
                                   s2)))"

definition create_delivery_request ::
  "RequestEnv \<Rightarrow> DeliveryRequest \<Rightarrow> ServerState \<Rightarrow> (py_error + response) \<times> ServerState" where
  "create_delivery_request env request s =
     (if \<not> is_within_operational_area (pickup request)
      then (Inl (HTTPException 400 ''Pickup location outside operational area''), s)
      else if \<not> is_within_operational_area (delivery request)
      then (Inl (HTTPException 400 ''Delivery location outside operational area''), s)
      else case is_in_no_fly_zone (pickup request) of
        Inl e \<Rightarrow> (Inl e, s)
      | Inr pickup_in_zone \<Rightarrow>
          if pickup_in_zone
          then (Inl (HTTPException 400 ''Pickup location is in a no-fly zone''), s)
          else case is_in_no_fly_zone (delivery request) of
            Inl e \<Rightarrow> (Inl e, s)
          | Inr delivery_in_zone \<Rightarrow>
              if delivery_in_zone
              then (Inl (HTTPException 400 ''Delivery location is in a no-fly zone''), s)
              else
                (let mission_id' = ''mission_'' @ take 8 (uuid_hex env);
                     mission = \<lparr>mission_id = mission_id', drone_id = None,
                                pickup_location = pickup request,
                                delivery_location = delivery request,
                                created_at = time_created env, assigned_at = None,
                                completed_at = None, status = IDLE, trajectory = None\<rparr>
                 in case find_idle_drone (active_drones s) of
                      Some available_drone \<Rightarrow>
                        if available_drone \<noteq> []
                        then create_delivery_request_assign env request mission available_drone s
                        else (Inr (Queued mission_id'),
                              s\<lparr>active_missions :=
                                   AList.update mission_id' mission (active_missions s),
                                 system_stats := (system_stats s)
                                   \<lparr>total_missions := total_missions (system_stats s) + 1\<rparr>\<rparr>)
                    | None \<Rightarrow>
                        (Inr (Queued mission_id'),
                         s\<lparr>active_missions :=
                              AList.update mission_id' mission (active_missions s),
                            system_stats := (system_stats s)
                              \<lparr>total_missions := total_missions (system_stats s) + 1\<rparr>\<rparr>)))"

subsection \<open>The other handlers that write to the state\<close>

definition update_telemetry :: "Telemetry \<Rightarrow> ServerState \<Rightarrow> (py_error + response) \<times> ServerState" where
  "update_telemetry telemetry s =
     (Inr TelemetryOk,
      broadcast (TelemetryMessage telemetry)
        (s\<lparr>active_drones := AList.update (t_drone_id telemetry) telemetry (active_drones s)\<rparr>))"

definition register_drone ::
  "real \<Rightarrow> string \<Rightarrow> Position \<Rightarrow> ServerState \<Rightarrow> (py_error + response) \<times> ServerState" where
  "register_drone now drone_id' position' s =
     (if drone_id' \<in> fst ` set (active_drones s)
      then (Inl (HTTPException 400 ''Drone already registered''), s)
      else
        (let telemetry = \<lparr>t_drone_id = drone_id', t_position = position', velocity = (0, 0, 0),
                          battery_level = 100, t_status = IDLE, t_timestamp = now\<rparr>;
             drones = AList.update drone_id' telemetry (active_drones s)
         in (Inr (Registered drone_id'),
             broadcast (DroneRegisteredMessage telemetry)
               (s\<lparr>active_drones := drones,
                  system_stats := (system_stats s)
                    \<lparr>active_drones_count := int (length drones)\<rparr>\<rparr>))))"

text \<open>
  A run of the server: the calls that write to the state, each handled to its end before
  the next, from the state the module is loaded with. A call that ends by an exception
  leaves the state as it was when the exception was raised. The handlers give up control
  only in \<^verbatim>\<open>await manager.broadcast\<close>, which in the loop over the conflicts comes after the
  two counters have been raised.
\<close>

datatype api_call =
    DeliveryRequestCall RequestEnv DeliveryRequest
  | TelemetryUpdateCall Telemetry
  | RegisterDroneCall real string Position

fun handle_call :: "api_call \<Rightarrow> ServerState \<Rightarrow> (py_error + response) \<times> ServerState" where
  "handle_call (DeliveryRequestCall env request) s = create_delivery_request env request s"
| "handle_call (TelemetryUpdateCall telemetry) s = update_telemetry telemetry s"
| "handle_call (RegisterDroneCall now drone_id' position') s =
     register_drone now drone_id' position' s"

definition serve :: "api_call list \<Rightarrow> ServerState \<Rightarrow> ServerState" where
  "serve calls s = foldl (\<lambda>s c. snd (handle_call c s)) s calls"


section \<open>Properties\<close>

subsection \<open>Geodesy at a fixed horizontal position\<close>

lemma haversine_same: "haversine_distance la lo la lo = 0"
  by (simp add: haversine_distance_def radians_def atan2_def)

lemma distance_3d_same: "distance_3d la lo a1 la lo a2 = \<bar>a2 - a1\<bar>"
  by (simp add: distance_3d_def haversine_same)

subsection \<open>Battery estimate of a synthesised trajectory\<close>

lemma nodes_to_trajectory_battery:
  "nodes_to_trajectory nodes = Inr T \<Longrightarrow>
   estimated_battery_usage T =
     (n_time (last nodes) - n_time (hd nodes)) * DRONE_POWER_CONSUMPTION
       / DRONE_BATTERY_CAPACITY * 100"
  by (cases "waypoints_loop nodes [] 0"; cases nodes)
     (auto simp: nodes_to_trajectory_def Let_def split: prod.splits)

definition battery_example_nodes :: "Node4D list" where
  "battery_example_nodes =
     [Node4D 37.7 (-122.4) 50 0 None 0 0 0,
      Node4D 37.7 (-122.4) 50 3600 (Some (Node4D 37.7 (-122.4) 50 0 None 0 0 0)) 0 0 0]"

text \<open>
  Claim C9: \<^verbatim>\<open>nodes_to_trajectory\<close> sets the battery estimate to
  \<open>total_time \<sqdot> POWER / CAPACITY \<sqdot> 100 / 3600\<close>. The code has no division by 3600: for a
  path whose two nodes are one hour apart it reports 20000 percent, where the formula of
  the claim gives 50/9 percent.
\<close>

theorem battery_usage_lacks_hour_conversion:
  "\<exists>T. nodes_to_trajectory battery_example_nodes = Inr T
     \<and> total_time T = 3600
     \<and> estimated_battery_usage T = 20000
     \<and> total_time T * DRONE_POWER_CONSUMPTION / DRONE_BATTERY_CAPACITY * 100 / 3600 = 50 / 9"
  by (simp add: battery_example_nodes_def nodes_to_trajectory_def to_position_def
        mk_Position_def valid_position_def Let_def DRONE_POWER_CONSUMPTION_def
        DRONE_BATTERY_CAPACITY_def)

subsection \<open>The resolver and the missing import\<close>

lemma adjust_speed_loop_length:
  "length (adjust_speed_loop ct ws acc) = length acc + length ws"
  by (induction ws arbitrary: acc) auto

lemma adjust_speed_Inr_nonempty: "adjust_speed traj c = Inr m \<Longrightarrow> waypoints traj \<noteq> []"
proof
  assume "adjust_speed traj c = Inr m" and "waypoints traj = []"
  then show False by (simp add: adjust_speed_def)
qed

lemma adjust_altitude_nonempty:
  "waypoints traj \<noteq> [] \<Longrightarrow> adjust_altitude traj c = Inl (NameError ''Position'')"
  by (cases "waypoints traj")
     (simp_all add: adjust_altitude_def global_lookup_def conflict_detection_globals_def)

text \<open>
  Whatever the input, \<^verbatim>\<open>resolve_conflict\<close> either raises or returns the speed-adjusted
  trajectory: the second rung of the ladder always raises, so the third is never reached.
\<close>

lemma resolve_conflict_cases:
  "(\<exists>e. resolve_conflict c t1 t2 = Inl e) \<or>
   (\<exists>m. resolve_conflict c t1 t2 = Inr (m, ''speed_adjustment'')
        \<and> adjust_speed t1 c = Inr m \<and> trajectories_conflict m t2 = Inr False)"
proof (cases "adjust_speed t1 c")
  case (Inl e)
  then show ?thesis by (simp add: resolve_conflict_def)
next
  case (Inr m)
  then have ne: "waypoints t1 \<noteq> []" by (rule adjust_speed_Inr_nonempty)
  show ?thesis
  proof (cases "trajectories_conflict m t2")
    case (Inl e)
    with Inr show ?thesis by (simp add: resolve_conflict_def)
  next
    case r: (Inr still)
    with Inr ne show ?thesis
      by (cases still) (simp_all add: resolve_conflict_def adjust_altitude_nonempty)
  qed
qed

text \<open>
  A climb from 50 m to 100 m during five seconds, straight through a drone that hovers at
  50 m over the same point; the conflict is found at the first tick.
\<close>

definition climb_trajectory :: Trajectory where
  "climb_trajectory =
     \<lparr>waypoints =
        [\<lparr>position = \<lparr>latitude = 37.7, longitude = -122.4, altitude = 50\<rparr>,
          eta = 0, speed = 10, heading = 0\<rparr>,
         \<lparr>position = \<lparr>latitude = 37.7, longitude = -122.4, altitude = 100\<rparr>,
          eta = 5, speed = 0, heading = 0\<rparr>],
      total_distance = 50, total_time = 5, estimated_battery_usage = 250 / 9\<rparr>"

definition hover_trajectory :: Trajectory where
  "hover_trajectory =
     \<lparr>waypoints =
        [\<lparr>position = \<lparr>latitude = 37.7, longitude = -122.4, altitude = 50\<rparr>,
          eta = 0, speed = 10, heading = 0\<rparr>,
         \<lparr>position = \<lparr>latitude = 37.7, longitude = -122.4, altitude = 50\<rparr>,
          eta = 1000, speed = 0, heading = 0\<rparr>],
      total_distance = 0, total_time = 1000, estimated_battery_usage = 50000 / 9\<rparr>"

definition climb_hover_conflict :: ConflictAlert where
  "climb_hover_conflict =
     \<lparr>conflict_id = ''c-1'', drone_1_id = ''drone_001'', drone_2_id = ''drone_002'',
      conflict_position = \<lparr>latitude = 37.7, longitude = -122.4, altitude = 50\<rparr>,
      conflict_time = 0, severity = ''critical'', resolution_action = None\<rparr>"

definition delayed_climb_trajectory :: Trajectory where
  "delayed_climb_trajectory =
     \<lparr>waypoints =
        [\<lparr>position = \<lparr>latitude = 37.7, longitude = -122.4, altitude = 50\<rparr>,
          eta = 15, speed = 10, heading = 0\<rparr>,
         \<lparr>position = \<lparr>latitude = 37.7, longitude = -122.4, altitude = 100\<rparr>,
          eta = 20, speed = 10, heading = 0\<rparr>],
      total_distance = 50, total_time = 5, estimated_battery_usage = 250 / 9\<rparr>"

lemma climb_hover_detected:
  "check_trajectory_conflict ''c-1'' ''drone_001'' climb_trajectory ''drone_002'' hover_trajectory
     = Inr (Some climb_hover_conflict)"
  by (simp add: check_trajectory_conflict_def climb_trajectory_def hover_trajectory_def
       climb_hover_conflict_def conflict_scan.simps[of _ _ _ _ _ _ 0] mk_Position4D_def
       valid_position_def haversine_same HORIZONTAL_SEPARATION_def VERTICAL_SEPARATION_def
       assess_severity_def Position.truncate_def Let_def)

lemma climb_speed_adjusted:
  "adjust_speed climb_trajectory climb_hover_conflict = Inr delayed_climb_trajectory"
  by (simp add: adjust_speed_def climb_trajectory_def climb_hover_conflict_def
        adjust_speed_step_def delayed_climb_trajectory_def distance_3d_same
        TIME_RESOLUTION_def DRONE_CRUISE_SPEED_def DRONE_POWER_CONSUMPTION_def
        DRONE_BATTERY_CAPACITY_def Let_def)

lemma delayed_climb_still_conflicts:
  "trajectories_conflict delayed_climb_trajectory hover_trajectory = Inr True"
  by (simp add: trajectories_conflict_def check_trajectory_conflict_def hover_trajectory_def
       delayed_climb_trajectory_def conflict_scan.simps[of _ _ _ _ _ _ 15] mk_Position4D_def
       valid_position_def haversine_same HORIZONTAL_SEPARATION_def VERTICAL_SEPARATION_def
       Let_def)

text \<open>
  Claim C3: \<^verbatim>\<open>resolve_conflict\<close> returns a pair for every conflict and pair of
  trajectories, the last rung being \<open>(traj_modify, "replan_required")\<close>. On the climb
  through the hovering drone the detector reports the conflict, the speed adjustment does
  not clear it, and the call then raises \<^verbatim>\<open>NameError\<close> instead of returning.
\<close>

theorem resolve_conflict_raises_name_error:
  "check_trajectory_conflict ''c-1'' ''drone_001'' climb_trajectory ''drone_002'' hover_trajectory
     = Inr (Some climb_hover_conflict)
   \<and> resolve_conflict climb_hover_conflict climb_trajectory hover_trajectory
     = Inl (NameError ''Position'')"
proof -
  have "waypoints climb_trajectory \<noteq> []"
    by (simp add: climb_trajectory_def)
  then show ?thesis
    by (simp add: climb_hover_detected resolve_conflict_def climb_speed_adjusted
          delayed_climb_still_conflicts adjust_altitude_nonempty)
qed

text \<open>
  Claim C4: for every trajectory (a trajectory has waypoints) and every conflict,
  \<^verbatim>\<open>adjust_altitude\<close> raises \<^verbatim>\<open>NameError\<close> for the name \<^verbatim>\<open>Position\<close>, which the
  module does not import, instead of returning a trajectory; and for every input,
  \<^verbatim>\<open>resolve_conflict\<close> never returns with the method \<open>altitude_change\<close>.
\<close>

theorem adjust_altitude_name_error:
  "(waypoints traj \<noteq> [] \<longrightarrow> adjust_altitude traj conflict = Inl (NameError ''Position''))
   \<and> (\<forall>out. resolve_conflict conflict traj traj_2 \<noteq> Inr (out, ''altitude_change''))"
  using resolve_conflict_cases [of conflict traj traj_2]
  by (auto simp: adjust_altitude_nonempty)

theorem adjust_altitude_name_error_witness:
  "waypoints climb_trajectory \<noteq> []
   \<and> adjust_altitude climb_trajectory climb_hover_conflict = Inl (NameError ''Position'')
   \<and> (\<forall>out. resolve_conflict climb_hover_conflict climb_trajectory hover_trajectory
               \<noteq> Inr (out, ''altitude_change''))"
  using adjust_altitude_name_error [of climb_trajectory climb_hover_conflict hover_trajectory]
  by (simp add: climb_trajectory_def)

subsection \<open>Speed adjustment\<close>

lemma adjust_speed_loop_prefix:
  "\<exists>rest. adjust_speed_loop ct ws acc = acc @ rest \<and> length rest = length ws"
proof (induction ws arbitrary: acc)
  case Nil
  then show ?case by simp
next
  case (Cons w ws)
  from Cons.IH [of "acc @ [adjust_speed_step ct acc w]"]
  obtain rest where "adjust_speed_loop ct ws (acc @ [adjust_speed_step ct acc w])
      = (acc @ [adjust_speed_step ct acc w]) @ rest" and "length rest = length ws"
    by blast
  then show ?case by simp
qed

lemma adjust_speed_loop_nth:
  "i < length ws \<Longrightarrow>
   adjust_speed_loop ct ws acc ! (length acc + i) =
     adjust_speed_step ct (take (length acc + i) (adjust_speed_loop ct ws acc)) (ws ! i)"
proof (induction ws arbitrary: acc i)
  case Nil
  then show ?case by simp
next
  case (Cons w ws)
  let ?s = "adjust_speed_step ct acc w"
  obtain rest where r: "adjust_speed_loop ct ws (acc @ [?s]) = (acc @ [?s]) @ rest"
    using adjust_speed_loop_prefix by blast
  show ?case
  proof (cases i)
    case 0
    then show ?thesis using r by (simp add: nth_append)
  next
    case (Suc j)
    with Cons.prems have "j < length ws" by simp
    from Cons.IH [OF this, of "acc @ [?s]"] Suc show ?thesis by simp
  qed
qed

lemma adjust_speed_loop_step:
  "i < length ws \<Longrightarrow>
   adjust_speed_loop ct ws [] ! i = adjust_speed_step ct (take i (adjust_speed_loop ct ws [])) (ws ! i)"
  using adjust_speed_loop_nth [of i ws ct "[]"] by simp

definition mid_climb_conflict :: ConflictAlert where
  "mid_climb_conflict = climb_hover_conflict\<lparr>conflict_time := 3\<rparr>"

text \<open>
  Claim C5, as stated: the first waypoint's ETA is preserved unchanged. For the conflict
  found at the first tick of the climb (conflict time 0, the ETA of the first waypoint)
  the first waypoint is not before the conflict, and its ETA moves from 0 to 15.
\<close>

theorem adjust_speed_shifts_first_eta:
  "adjust_speed climb_trajectory climb_hover_conflict = Inr delayed_climb_trajectory
   \<and> eta (hd (waypoints climb_trajectory)) = 0
   \<and> eta (hd (waypoints delayed_climb_trajectory)) = 15"
  by (simp add: climb_speed_adjusted) (simp add: climb_trajectory_def delayed_climb_trajectory_def)

text \<open>
  Claim C5, amended: for every trajectory with at least one waypoint and every conflict,
  \<^verbatim>\<open>adjust_speed\<close> returns a trajectory with the same positions and headings in which
  every waypoint whose original ETA precedes the conflict time has the original speed times
  0.7, clamped to at least \<open>DRONE_MIN_SPEED\<close>, every other waypoint has speed
  \<open>DRONE_CRUISE_SPEED\<close>, every ETA after the first is the previous new ETA plus the
  distance from the previous waypoint divided by the waypoint's new speed, and the first
  ETA is preserved when it precedes the conflict time and is delayed by three time steps
  (15 s) otherwise.
\<close>

theorem adjust_speed_profile:
  assumes "waypoints traj \<noteq> []"
  shows "\<exists>T. adjust_speed traj c = Inr T
     \<and> length (waypoints T) = length (waypoints traj)
     \<and> (\<forall>i < length (waypoints traj).
          position (waypoints T ! i) = position (waypoints traj ! i)
          \<and> heading (waypoints T ! i) = heading (waypoints traj ! i)
          \<and> speed (waypoints T ! i) =
              (if eta (waypoints traj ! i) < conflict_time c
               then max (speed (waypoints traj ! i) * 0.7) DRONE_MIN_SPEED
               else DRONE_CRUISE_SPEED)
          \<and> (0 < i \<longrightarrow>
               eta (waypoints T ! i) =
                 eta (waypoints T ! (i - 1))
                 + distance_3d (latitude (position (waypoints T ! (i - 1))))
                     (longitude (position (waypoints T ! (i - 1))))
                     (altitude (position (waypoints T ! (i - 1))))
                     (latitude (position (waypoints traj ! i)))
                     (longitude (position (waypoints traj ! i)))
                     (altitude (position (waypoints traj ! i)))
                   / speed (waypoints T ! i)))
     \<and> eta (hd (waypoints T)) =
          (if eta (hd (waypoints traj)) < conflict_time c
           then eta (hd (waypoints traj))
           else eta (hd (waypoints traj)) + 3 * TIME_RESOLUTION)"
proof -
  let ?ws = "waypoints traj" and ?ct = "conflict_time c"
  let ?nw = "adjust_speed_loop ?ct ?ws []"
  have len: "length ?nw = length ?ws"
    by (simp add: adjust_speed_loop_length)
  with assms have ne: "?nw \<noteq> []" by auto
  obtain T where T: "adjust_speed traj c = Inr T" and wT: "waypoints T = ?nw"
    using ne by (simp add: adjust_speed_def Let_def)
  have step: "?nw ! i = adjust_speed_step ?ct (take i ?nw) (?ws ! i)" if "i < length ?ws" for i
    using that by (rule adjust_speed_loop_step)
  have fields: "position (?nw ! i) = position (?ws ! i)
      \<and> heading (?nw ! i) = heading (?ws ! i)
      \<and> speed (?nw ! i) =
              (if eta (?ws ! i) < ?ct
               then max (speed (?ws ! i) * 0.7) DRONE_MIN_SPEED
               else DRONE_CRUISE_SPEED)" if "i < length ?ws" for i
    by (simp add: step [OF that] adjust_speed_step_def Let_def)
  have etas: "eta (?nw ! i) =
                 eta (?nw ! (i - 1))
                 + distance_3d (latitude (position (?nw ! (i - 1))))
                     (longitude (position (?nw ! (i - 1))))
                     (altitude (position (?nw ! (i - 1))))
                     (latitude (position (?ws ! i)))
                     (longitude (position (?ws ! i)))
                     (altitude (position (?ws ! i)))
                   / speed (?nw ! i)" if "i < length ?ws" "0 < i" for i
  proof -
    from that len have tk: "take i ?nw \<noteq> []" by auto
    from that len tk have "last (take i ?nw) = ?nw ! (i - 1)"
      by (simp add: last_conv_nth min_def)
    then show ?thesis
      using tk by (simp add: step [OF that(1)] adjust_speed_step_def Let_def)
  qed
  have first: "eta (hd ?nw) =
          (if eta (hd ?ws) < ?ct then eta (hd ?ws) else eta (hd ?ws) + 3 * TIME_RESOLUTION)"
  proof -
    from assms have "0 < length ?ws" by simp
    from step [OF this] have "?nw ! 0 = adjust_speed_step ?ct [] (?ws ! 0)" by simp
    moreover have "hd ?nw = ?nw ! 0" using ne by (simp add: hd_conv_nth)
    moreover have "hd ?ws = ?ws ! 0" using assms by (simp add: hd_conv_nth)
    ultimately show ?thesis by (simp add: adjust_speed_step_def Let_def)
  qed
  show ?thesis
    using T wT len fields etas first by auto
qed


theorem adjust_speed_profile_witness:
  "waypoints climb_trajectory \<noteq> []
   \<and> (\<exists>T. adjust_speed climb_trajectory mid_climb_conflict = Inr T
          \<and> map speed (waypoints T) = [7, 10]
          \<and> map eta (waypoints T) = [0, 5])"
  using adjust_speed_profile [of climb_trajectory mid_climb_conflict]
  by (simp add: adjust_speed_def climb_trajectory_def mid_climb_conflict_def
        climb_hover_conflict_def adjust_speed_step_def distance_3d_same
        DRONE_MIN_SPEED_def DRONE_CRUISE_SPEED_def Let_def)

subsection \<open>Node identity in the closed set\<close>




















subsection \<open>Conflict detection\<close>

text \<open>
  Both samples exist at \<open>t\<close> and are closer than the two separation minima.
\<close>

definition sample_violation :: "Trajectory \<Rightarrow> Trajectory \<Rightarrow> real \<Rightarrow> bool" where
  "sample_violation traj_1 traj_2 t =
     (case (interpolate_position (waypoints traj_1) t, interpolate_position (waypoints traj_2) t) of
        (Inr (Some p1), Inr (Some p2)) \<Rightarrow>
          haversine_distance (latitude p1) (longitude p1) (latitude p2) (longitude p2)
            < HORIZONTAL_SEPARATION
          \<and> \<bar>altitude p1 - altitude p2\<bar> < VERTICAL_SEPARATION
      | _ \<Rightarrow> False)"

definition tick :: "real \<Rightarrow> nat \<Rightarrow> real" where
  "tick t_start k = t_start + TIME_RESOLUTION * real k"

definition first_violation :: "Trajectory \<Rightarrow> Trajectory \<Rightarrow> real \<Rightarrow> real \<Rightarrow> nat \<Rightarrow> bool" where
  "first_violation traj_1 traj_2 t_start t_end k \<longleftrightarrow>
     tick t_start k \<le> t_end \<and> sample_violation traj_1 traj_2 (tick t_start k)
     \<and> list_all (\<lambda>j. \<not> sample_violation traj_1 traj_2 (tick t_start j)) [0..<k]"

lemma convex_between:
  fixes a b x1 x2 r :: real
  assumes "a \<le> x1" "x1 \<le> b" "a \<le> x2" "x2 \<le> b" "0 \<le> r" "r \<le> 1"
  shows "a \<le> x1 + r * (x2 - x1) \<and> x1 + r * (x2 - x1) \<le> b"
proof -
  have "0 \<le> (1 - r) * (x1 - a) + r * (x2 - a)"
    using assms by (intro add_nonneg_nonneg mult_nonneg_nonneg) auto
  moreover have "0 \<le> (1 - r) * (b - x1) + r * (b - x2)"
    using assms by (intro add_nonneg_nonneg mult_nonneg_nonneg) auto
  ultimately show ?thesis by (simp add: algebra_simps)
qed

lemma valid_position_convex:
  assumes "valid_position la1 lo1 al1" "valid_position la2 lo2 al2" "0 \<le> r" "r \<le> 1"
  shows "valid_position (la1 + r * (la2 - la1)) (lo1 + r * (lo2 - lo1)) (al1 + r * (al2 - al1))"
  using assms convex_between [of "-90" la1 90 la2 r] convex_between [of "-180" lo1 180 lo2 r]
    convex_between [of 0 al1 150 al2 r]
  by (simp add: valid_position_def)

lemma interpolate_never_raises:
  "\<forall>w \<in> set ws. position_ok (position w) \<Longrightarrow> \<exists>r. interpolate_position ws t = Inr r"
proof (induction ws t rule: interpolate_position.induct)
  case (1 w1 w2 rest t)
  show ?case
  proof (cases "eta w1 \<le> t \<and> t \<le> eta w2")
    case True
    define r where "r = (if eta w2 \<noteq> eta w1 then (t - eta w1) / (eta w2 - eta w1) else 0)"
    from True have "0 \<le> r" "r \<le> 1"
      by (auto simp: r_def divide_simps)
    moreover from 1(2) have "position_ok (position w1)" "position_ok (position w2)"
      by simp_all
    ultimately have "valid_position
        (latitude (position w1) + r * (latitude (position w2) - latitude (position w1)))
        (longitude (position w1) + r * (longitude (position w2) - longitude (position w1)))
        (altitude (position w1) + r * (altitude (position w2) - altitude (position w1)))"
      by (simp add: position_ok_def valid_position_convex)
    with True show ?thesis
      by (simp add: Let_def mk_Position4D_def r_def)
  next
    case False
    with 1 show ?thesis by auto
  qed
qed simp_all


lemma tick_0 [simp]: "tick t 0 = t"
  by (simp add: tick_def)

lemma tick_Suc: "tick t (Suc k) = tick (t + TIME_RESOLUTION) k"
  by (simp add: tick_def algebra_simps)

lemma tick_ge: "t \<le> tick t k"
  by (simp add: tick_def TIME_RESOLUTION_def)

lemma first_violation_0:
  "first_violation t1 t2 ct t_end 0 \<longleftrightarrow> ct \<le> t_end \<and> sample_violation t1 t2 ct"
  by (simp add: first_violation_def)

lemma first_violation_Suc:
  "first_violation t1 t2 ct t_end (Suc k) \<longleftrightarrow>
     \<not> sample_violation t1 t2 ct \<and> first_violation t1 t2 (ct + TIME_RESOLUTION) t_end k"
proof -
  have "[0..<Suc k] = 0 # map Suc [0..<k]"
    by (simp add: upt_conv_Cons map_Suc_upt del: upt_Suc)
  then show ?thesis
    by (auto simp: first_violation_def tick_Suc list.pred_map comp_def simp del: upt_Suc)
qed

text \<open>What the loop returns when it stops at the sample \<open>t\<close>.\<close>

definition alert_at ::
  "string \<Rightarrow> string \<Rightarrow> Trajectory \<Rightarrow> string \<Rightarrow> Trajectory \<Rightarrow> real \<Rightarrow> ConflictAlert \<Rightarrow> bool" where
  "alert_at uid drone_1 traj_1 drone_2 traj_2 t c \<longleftrightarrow>
     (case (interpolate_position (waypoints traj_1) t, interpolate_position (waypoints traj_2) t) of
        (Inr (Some p1), Inr (Some p2)) \<Rightarrow>
          (let horizontal = haversine_distance (latitude p1) (longitude p1)
                              (latitude p2) (longitude p2)
           in c = \<lparr>conflict_id = uid, drone_1_id = drone_1, drone_2_id = drone_2,
                   conflict_position = Position.truncate p1, conflict_time = t,
                   severity = (if horizontal < HORIZONTAL_SEPARATION / 2 then ''critical''
                               else if horizontal < 0.75 * HORIZONTAL_SEPARATION then ''warning''
                               else ''minor''),
                   resolution_action = None\<rparr>)
      | _ \<Rightarrow> False)"

lemma conflict_scan_result:
  assumes "\<forall>t. \<exists>r. interpolate_position (waypoints traj_1) t = Inr r"
    and "\<forall>t. \<exists>r. interpolate_position (waypoints traj_2) t = Inr r"
  shows "(\<exists>k c. first_violation traj_1 traj_2 ct t_end k
            \<and> alert_at uid d1 traj_1 d2 traj_2 (tick ct k) c
            \<and> conflict_scan uid d1 traj_1 d2 traj_2 t_end ct = Inr (Some c))
       \<or> ((\<forall>k. \<not> first_violation traj_1 traj_2 ct t_end k)
            \<and> conflict_scan uid d1 traj_1 d2 traj_2 t_end ct = Inr None)"
  using assms
proof (induction uid d1 traj_1 d2 traj_2 t_end ct rule: conflict_scan.induct)
  case (1 uid d1 traj_1 d2 traj_2 t_end ct)
  obtain r1 r2 where r: "interpolate_position (waypoints traj_1) ct = Inr r1"
    "interpolate_position (waypoints traj_2) ct = Inr r2"
    using "1.prems" by blast
  show ?case
  proof (cases "ct \<le> t_end")
    case False
    then have "\<not> first_violation traj_1 traj_2 ct t_end k" for k
      using tick_ge [of ct k] by (simp add: first_violation_def)
    with False show ?thesis
      by (simp add: conflict_scan.simps [of _ _ _ _ _ _ ct])
  next
    case True
    show ?thesis
    proof (cases "sample_violation traj_1 traj_2 ct")
      case viol: True
      then obtain p1 p2 where p: "r1 = Some p1" "r2 = Some p2"
        using r by (auto simp: sample_violation_def split: option.splits)
      let ?c = "\<lparr>conflict_id = uid, drone_1_id = d1, drone_2_id = d2,
                   conflict_position = Position.truncate p1, conflict_time = ct,
                   severity = assess_severity (haversine_distance (latitude p1) (longitude p1)
                              (latitude p2) (longitude p2)) \<bar>altitude p1 - altitude p2\<bar>,
                   resolution_action = None\<rparr>"
      from viol r p True have "conflict_scan uid d1 traj_1 d2 traj_2 t_end ct = Inr (Some ?c)"
        by (simp add: conflict_scan.simps [of _ _ _ _ _ _ ct] sample_violation_def Let_def)
      moreover have "alert_at uid d1 traj_1 d2 traj_2 (tick ct 0) ?c"
        using r p by (simp add: alert_at_def assess_severity_def Let_def mult.commute)
      moreover have "first_violation traj_1 traj_2 ct t_end 0"
        using viol True by (simp add: first_violation_0)
      ultimately show ?thesis by blast
    next
      case nov: False
      have step: "conflict_scan uid d1 traj_1 d2 traj_2 t_end ct
               = conflict_scan uid d1 traj_1 d2 traj_2 t_end (ct + TIME_RESOLUTION)"
        using nov r True
        by (auto simp: conflict_scan.simps [of _ _ _ _ _ _ ct] sample_violation_def Let_def
              split: option.splits)
      have fv: "first_violation traj_1 traj_2 ct t_end k
            \<longleftrightarrow> (\<exists>j. k = Suc j \<and> first_violation traj_1 traj_2 (ct + TIME_RESOLUTION) t_end j)" for k
        using nov by (cases k) (simp_all add: first_violation_0 first_violation_Suc)
      have IH: "(\<exists>k c. first_violation traj_1 traj_2 (ct + TIME_RESOLUTION) t_end k
            \<and> alert_at uid d1 traj_1 d2 traj_2 (tick (ct + TIME_RESOLUTION) k) c
            \<and> conflict_scan uid d1 traj_1 d2 traj_2 t_end (ct + TIME_RESOLUTION) = Inr (Some c))
       \<or> ((\<forall>k. \<not> first_violation traj_1 traj_2 (ct + TIME_RESOLUTION) t_end k)
            \<and> conflict_scan uid d1 traj_1 d2 traj_2 t_end (ct + TIME_RESOLUTION) = Inr None)"
      proof (cases r1)
        case None
        from "1.IH"(1) [OF True r(1) r(2) refl _ "1.prems"] None show ?thesis by simp
      next
        case s1: (Some p1)
        show ?thesis
        proof (cases r2)
          case None
          from "1.IH"(2) [OF True r(1) r(2) refl _ _ "1.prems"] s1 None show ?thesis by simp
        next
          case s2: (Some p2)
          from nov r s1 s2 have "\<not> (haversine_distance (latitude p1) (longitude p1)
                              (latitude p2) (longitude p2) < HORIZONTAL_SEPARATION
              \<and> \<bar>altitude p1 - altitude p2\<bar> < VERTICAL_SEPARATION)"
            by (simp add: sample_violation_def)
          from "1.IH"(3) [OF True r(1) r(2) refl _ _ refl refl this "1.prems"] s1 s2 show ?thesis by simp
        qed
      qed
      then show ?thesis
      proof
        assume "\<exists>k c. first_violation traj_1 traj_2 (ct + TIME_RESOLUTION) t_end k
            \<and> alert_at uid d1 traj_1 d2 traj_2 (tick (ct + TIME_RESOLUTION) k) c
            \<and> conflict_scan uid d1 traj_1 d2 traj_2 t_end (ct + TIME_RESOLUTION) = Inr (Some c)"
        then obtain k c where "first_violation traj_1 traj_2 (ct + TIME_RESOLUTION) t_end k"
          "alert_at uid d1 traj_1 d2 traj_2 (tick (ct + TIME_RESOLUTION) k) c"
          "conflict_scan uid d1 traj_1 d2 traj_2 t_end (ct + TIME_RESOLUTION) = Inr (Some c)"
          by blast
        then have "first_violation traj_1 traj_2 ct t_end (Suc k)"
          "alert_at uid d1 traj_1 d2 traj_2 (tick ct (Suc k)) c"
          "conflict_scan uid d1 traj_1 d2 traj_2 t_end ct = Inr (Some c)"
          using fv step by (simp_all add: tick_Suc)
        then show ?thesis by blast
      next
        assume "(\<forall>k. \<not> first_violation traj_1 traj_2 (ct + TIME_RESOLUTION) t_end k)
            \<and> conflict_scan uid d1 traj_1 d2 traj_2 t_end (ct + TIME_RESOLUTION) = Inr None"
        then show ?thesis using fv step by simp
      qed
    qed
  qed
qed


definition window_start :: "Trajectory \<Rightarrow> Trajectory \<Rightarrow> real" where
  "window_start traj_1 traj_2 = max (eta (hd (waypoints traj_1))) (eta (hd (waypoints traj_2)))"

definition window_end :: "Trajectory \<Rightarrow> Trajectory \<Rightarrow> real" where
  "window_end traj_1 traj_2 = min (eta (last (waypoints traj_1))) (eta (last (waypoints traj_2)))"

lemma tick_mono: "j \<le> k \<Longrightarrow> tick t j \<le> tick t k"
  by (simp add: tick_def TIME_RESOLUTION_def)

lemma first_violation_exists:
  assumes "tick t_start k \<le> t_end" "sample_violation t1 t2 (tick t_start k)"
  shows "\<exists>k. first_violation t1 t2 t_start t_end k"
proof -
  define P where "P k \<longleftrightarrow> tick t_start k \<le> t_end \<and> sample_violation t1 t2 (tick t_start k)" for k
  from assms have "P k" by (simp add: P_def)
  then have L: "P (Least P)"
    by (rule LeastI)
  have M: "\<not> P j" if "j < Least P" for j
    using that by (rule not_less_Least)
  have "\<not> sample_violation t1 t2 (tick t_start j)" if "j < Least P" for j
  proof -
    from that have "tick t_start j \<le> tick t_start (Least P)"
      by (simp add: tick_mono)
    with L have "tick t_start j \<le> t_end" by (simp add: P_def)
    with M [OF that] show ?thesis by (simp add: P_def)
  qed
  with L have "first_violation t1 t2 t_start t_end (Least P)"
    by (simp add: first_violation_def P_def list_all_iff)
  then show ?thesis ..
qed

text \<open>
  Claim C2, amended: for trajectories with at least one waypoint each,
  \<^verbatim>\<open>check_trajectory_conflict\<close> returns a conflict if and only if
  \<open>max(start1,start2) < min(end1,end2)\<close> and some tick sampled from the window start in
  steps of \<open>TIME_RESOLUTION\<close> up to the window end has both samples present, horizontal
  distance below \<open>HORIZONTAL_SEPARATION\<close> and altitude difference below
  \<open>VERTICAL_SEPARATION\<close>. The returned conflict is at the first such tick, its position is
  the first trajectory's sample there, and its severity is critical below half the
  horizontal minimum, warning below three quarters of it, and minor otherwise.
\<close>

theorem check_trajectory_conflict_first_violation:
  assumes "waypoints traj_1 \<noteq> []" "waypoints traj_2 \<noteq> []"
    and "list_all (\<lambda>w. position_ok (position w)) (waypoints traj_1)"
    and "list_all (\<lambda>w. position_ok (position w)) (waypoints traj_2)"
  shows "\<exists>r. check_trajectory_conflict uid drone_1 traj_1 drone_2 traj_2 = Inr r
     \<and> (r \<noteq> None \<longleftrightarrow>
          window_start traj_1 traj_2 < window_end traj_1 traj_2
          \<and> (\<exists>k. tick (window_start traj_1 traj_2) k \<le> window_end traj_1 traj_2
                 \<and> sample_violation traj_1 traj_2 (tick (window_start traj_1 traj_2) k)))
     \<and> (\<forall>c. r = Some c \<longrightarrow>
          (\<exists>k. first_violation traj_1 traj_2
                  (window_start traj_1 traj_2) (window_end traj_1 traj_2) k
               \<and> alert_at uid drone_1 traj_1 drone_2 traj_2
                   (tick (window_start traj_1 traj_2) k) c))"
proof -
  let ?s = "window_start traj_1 traj_2" and ?e = "window_end traj_1 traj_2"
  have nr: "\<forall>t. \<exists>r. interpolate_position (waypoints traj_1) t = Inr r"
    "\<forall>t. \<exists>r. interpolate_position (waypoints traj_2) t = Inr r"
    using assms(3,4) by (simp_all add: list_all_iff interpolate_never_raises)
  show ?thesis
  proof (cases "?s < ?e")
    case False
    then have "?e \<le> ?s" by simp
    then have "min (eta (last (waypoints traj_1))) (eta (last (waypoints traj_2)))
        \<le> max (eta (hd (waypoints traj_1))) (eta (hd (waypoints traj_2)))"
      unfolding window_start_def window_end_def .
    with assms(1,2) have "check_trajectory_conflict uid drone_1 traj_1 drone_2 traj_2 = Inr None"
      unfolding check_trajectory_conflict_def Let_def by simp
    with False show ?thesis by simp
  next
    case True
    then have "\<not> ?e \<le> ?s" by simp
    then have "\<not> min (eta (last (waypoints traj_1))) (eta (last (waypoints traj_2)))
        \<le> max (eta (hd (waypoints traj_1))) (eta (hd (waypoints traj_2)))"
      unfolding window_start_def window_end_def .
    with assms(1,2) have chk: "check_trajectory_conflict uid drone_1 traj_1 drone_2 traj_2
        = conflict_scan uid drone_1 traj_1 drone_2 traj_2 ?e ?s"
      unfolding check_trajectory_conflict_def Let_def window_start_def window_end_def by simp
    from conflict_scan_result [OF nr, of ?s ?e uid drone_1 drone_2]
    show ?thesis
    proof
      assume "\<exists>k c. first_violation traj_1 traj_2 ?s ?e k
            \<and> alert_at uid drone_1 traj_1 drone_2 traj_2 (tick ?s k) c
            \<and> conflict_scan uid drone_1 traj_1 drone_2 traj_2 ?e ?s = Inr (Some c)"
      then obtain k c where kc: "first_violation traj_1 traj_2 ?s ?e k"
        "alert_at uid drone_1 traj_1 drone_2 traj_2 (tick ?s k) c"
        "conflict_scan uid drone_1 traj_1 drone_2 traj_2 ?e ?s = Inr (Some c)"
        by blast
      from kc(1) have "tick ?s k \<le> ?e \<and> sample_violation traj_1 traj_2 (tick ?s k)"
        by (simp add: first_violation_def)
      with kc chk True show ?thesis by auto
    next
      assume a: "(\<forall>k. \<not> first_violation traj_1 traj_2 ?s ?e k)
            \<and> conflict_scan uid drone_1 traj_1 drone_2 traj_2 ?e ?s = Inr None"
      then have "\<not> (\<exists>k. tick ?s k \<le> ?e \<and> sample_violation traj_1 traj_2 (tick ?s k))"
        using first_violation_exists by blast
      with a chk show ?thesis by simp
    qed
  qed
qed


definition late_hover_trajectory :: Trajectory where
  "late_hover_trajectory =
     \<lparr>waypoints =
        [\<lparr>position = \<lparr>latitude = 37.7, longitude = -122.4, altitude = 100\<rparr>,
          eta = 5, speed = 10, heading = 0\<rparr>,
         \<lparr>position = \<lparr>latitude = 37.7, longitude = -122.4, altitude = 100\<rparr>,
          eta = 1000, speed = 0, heading = 0\<rparr>],
      total_distance = 0, total_time = 995, estimated_battery_usage = 49750 / 9\<rparr>"

text \<open>
  Claim C2, as stated, has no condition on the window. When the first trajectory ends at
  the very second the other begins, the window is the single tick 5, both samples there
  are at 100 m over the same point, and the detector returns no conflict: it leaves before
  sampling when the window start is not below the window end.
\<close>

theorem touching_windows_not_sampled:
  "window_start climb_trajectory late_hover_trajectory = 5
   \<and> window_end climb_trajectory late_hover_trajectory = 5
   \<and> tick (window_start climb_trajectory late_hover_trajectory) 0
        \<le> window_end climb_trajectory late_hover_trajectory
   \<and> sample_violation climb_trajectory late_hover_trajectory
        (tick (window_start climb_trajectory late_hover_trajectory) 0)
   \<and> check_trajectory_conflict ''c-2'' ''drone_001'' climb_trajectory
        ''drone_002'' late_hover_trajectory = Inr None"
  by (simp add: window_start_def window_end_def climb_trajectory_def late_hover_trajectory_def
        sample_violation_def check_trajectory_conflict_def mk_Position4D_def valid_position_def
        haversine_same HORIZONTAL_SEPARATION_def VERTICAL_SEPARATION_def Let_def)

theorem check_trajectory_conflict_first_violation_witness:
  "waypoints climb_trajectory \<noteq> [] \<and> waypoints hover_trajectory \<noteq> []
   \<and> list_all (\<lambda>w. position_ok (position w)) (waypoints climb_trajectory)
   \<and> list_all (\<lambda>w. position_ok (position w)) (waypoints hover_trajectory)
   \<and> check_trajectory_conflict ''c-1'' ''drone_001'' climb_trajectory
        ''drone_002'' hover_trajectory = Inr (Some climb_hover_conflict)
   \<and> window_start climb_trajectory hover_trajectory < window_end climb_trajectory hover_trajectory
   \<and> (\<exists>k. first_violation climb_trajectory hover_trajectory
             (window_start climb_trajectory hover_trajectory)
             (window_end climb_trajectory hover_trajectory) k
          \<and> alert_at ''c-1'' ''drone_001'' climb_trajectory ''drone_002'' hover_trajectory
               (tick (window_start climb_trajectory hover_trajectory) k) climb_hover_conflict)"
proof -
  have ne: "waypoints climb_trajectory \<noteq> []" "waypoints hover_trajectory \<noteq> []"
    by (simp_all add: climb_trajectory_def hover_trajectory_def)
  have ok: "list_all (\<lambda>w. position_ok (position w)) (waypoints climb_trajectory)"
    "list_all (\<lambda>w. position_ok (position w)) (waypoints hover_trajectory)"
    by (simp_all add: climb_trajectory_def hover_trajectory_def position_ok_def valid_position_def)
  from check_trajectory_conflict_first_violation [OF ne ok, of "''c-1''" "''drone_001''" "''drone_002''"]
  show ?thesis
    using ne ok by (simp add: climb_hover_detected)
qed


subsection \<open>The heap keeps its members\<close>







subsection \<open>Planned trajectories and the geofence\<close>




















lemma astar_loop_exit:
  "\<not> (open_set \<noteq> [] \<and> iterations < max_iterations) \<Longrightarrow>
   astar_loop goal open_set closed_set iterations = (Inr None, iterations, open_set)"
  by (subst astar_loop.simps) auto

lemma astar_loop_step:
  assumes "open_set \<noteq> [] \<and> iterations < max_iterations"
    and "astar_loop goal open_set closed_set iterations = (r, k, left)"
  shows "(\<exists>e. r = Inl e \<and> k = Suc iterations)
    \<or> (\<exists>current open1.
          heappop open_set = Inr (current, open1) \<and> k = Suc iterations \<and> left = open1
          \<and> distance_3d (n_lat current) (n_lon current) (n_alt current)
               (latitude goal) (longitude goal) (altitude goal) < GRID_RESOLUTION * 1.5
          \<and> r = ebind (nodes_to_trajectory (reconstruct_path current)) (\<lambda>t. Inr (Some t)))
    \<or> (\<exists>current open1 nbs open2.
          heappop open_set = Inr (current, open1)
          \<and> \<not> distance_3d (n_lat current) (n_lon current) (n_alt current)
               (latitude goal) (longitude goal) (altitude goal) < GRID_RESOLUTION * 1.5
          \<and> get_neighbors current (latitude goal) (longitude goal) = Inr nbs
          \<and> expand goal current (closed_add current closed_set) nbs open1 = Inr open2
          \<and> astar_loop goal open2 (closed_add current closed_set) (Suc iterations) = (r, k, left))"
proof (cases "heappop open_set")
  case (Inl e)
  with assms show ?thesis
    by (subst (asm) astar_loop.simps) auto
next
  case (Inr b)
  obtain current open1 where b: "b = (current, open1)" by (cases b)
  let ?d = "distance_3d (n_lat current) (n_lon current) (n_alt current)
               (latitude goal) (longitude goal) (altitude goal)"
  show ?thesis
  proof (cases "?d < GRID_RESOLUTION * 1.5")
    case True
    with assms Inr b show ?thesis
      by (subst (asm) astar_loop.simps) (auto simp: Let_def)
  next
    case far: False
    show ?thesis
    proof (cases "get_neighbors current (latitude goal) (longitude goal)")
      case (Inl e)
      with assms Inr b far show ?thesis
        by (subst (asm) astar_loop.simps) (auto simp: Let_def)
    next
      case nb: (Inr nbs)
      show ?thesis
      proof (cases "expand goal current (closed_add current closed_set) nbs open1")
        case (Inl e)
        with assms Inr b far nb show ?thesis
          by (subst (asm) astar_loop.simps) (auto simp: Let_def)
      next
        case ex: (Inr open2)
        with assms Inr b far nb
        have "astar_loop goal open2 (closed_add current closed_set) (Suc iterations) = (r, k, left)"
          by (subst (asm) astar_loop.simps) (auto simp: Let_def)
        with Inr b far nb ex show ?thesis by blast
      qed
    qed
  qed
qed



lemma astar_loop_bound:
  "iterations \<le> max_iterations \<Longrightarrow>
   astar_loop goal open_set closed_set iterations = (r, k, left) \<Longrightarrow>
   iterations \<le> k \<and> k \<le> max_iterations \<and> (r = Inr None \<longrightarrow> k = max_iterations \<or> left = [])"
proof (induction goal open_set closed_set iterations rule: astar_loop.induct)
  case (1 goal open_set closed_set iterations)
  show ?case
  proof (cases "open_set \<noteq> [] \<and> iterations < max_iterations")
    case False
    from astar_loop_exit [OF False] "1.prems"(2)
    have "r = Inr None" "k = iterations" "left = open_set" by simp_all
    moreover from False "1.prems"(1) have "open_set = [] \<or> iterations = max_iterations"
      by auto
    ultimately show ?thesis using "1.prems"(1) by auto
  next
    case True
    from astar_loop_step [OF True "1.prems"(2)]
    consider
      (raised) e where "r = Inl e" "k = Suc iterations"
    | (found) current where "k = Suc iterations"
        "r = ebind (nodes_to_trajectory (reconstruct_path current)) (\<lambda>t. Inr (Some t))"
    | (more) current open1 nbs open2 where "heappop open_set = Inr (current, open1)"
        "\<not> distance_3d (n_lat current) (n_lon current) (n_alt current)
               (latitude goal) (longitude goal) (altitude goal) < GRID_RESOLUTION * 1.5"
        "get_neighbors current (latitude goal) (longitude goal) = Inr nbs"
        "expand goal current (closed_add current closed_set) nbs open1 = Inr open2"
        "astar_loop goal open2 (closed_add current closed_set) (Suc iterations) = (r, k, left)"
      by blast
    then show ?thesis
    proof cases
      case raised
      with True show ?thesis by simp
    next
      case found
      from found(2) have "r \<noteq> Inr None"
        by (cases "nodes_to_trajectory (reconstruct_path current)") simp_all
      with found(1) True show ?thesis by simp
    next
      case more
      have eb: "ebind (get_neighbors current (latitude goal) (longitude goal))
          (\<lambda>nbs. expand goal current (closed_add current closed_set) nbs open1) = Inr open2"
        using more(3,4) by simp
      from True have "Suc iterations \<le> max_iterations" by simp
      from "1.IH" [OF True more(1) refl refl more(2) refl eb this more(5)]
      show ?thesis by simp
    qed
  qed
qed

lemma heappush_empty: "heappush [] x = [x]"
  by (simp add: heappush_def siftdown_def siftdown_loop.simps [of _ 0 0])

lemma plan_trajectory_run_start:
  "\<exists>n0. n_parent n0 = None \<and> n_lat n0 = latitude start \<and> n_lon n0 = longitude start
      \<and> plan_trajectory_run start goal t0 = astar_loop goal [n0] [] 0"
  unfolding plan_trajectory_run_def Let_def heappush_empty
  apply (rule exI)
  apply (intro conjI)
     prefer 4
     apply (rule refl)
    apply simp_all
  done


text \<open>
  Claim C7: \<^verbatim>\<open>plan_trajectory\<close> terminates on every input (the function is total), pops
  the heap at most \<open>MAX_ITERATIONS = 200000\<close> times, and returns null when the loop is
  entered with an empty open set or with the iteration bound reached; a null result means
  that the bound was reached or the open set ran empty.
\<close>

theorem plan_trajectory_bounded:
  "\<exists>r k left. plan_trajectory_run start goal t0 = (r, k, left)
     \<and> plan_trajectory start goal t0 = r
     \<and> k \<le> max_iterations \<and> max_iterations = 200000
     \<and> (r = Inr None \<longrightarrow> k = max_iterations \<or> left = [])
     \<and> astar_loop goal [] closed_set n = (Inr None, n, [])
     \<and> astar_loop goal open_set closed_set max_iterations = (Inr None, max_iterations, open_set)"
proof -
  obtain r k left where run: "plan_trajectory_run start goal t0 = (r, k, left)"
    by (cases "plan_trajectory_run start goal t0")
  with plan_trajectory_run_start [of start goal t0]
  obtain n0 where "astar_loop goal [n0] [] 0 = (r, k, left)"
    by auto
  from astar_loop_bound [OF _ this]
  have "0 \<le> k \<and> k \<le> max_iterations \<and> (r = Inr None \<longrightarrow> k = max_iterations \<or> left = [])"
    by simp
  with run show ?thesis
    by (simp add: plan_trajectory_def astar_loop_exit) (simp add: max_iterations_def)
qed



lemma safe_altitude_north: "get_safe_altitude_for_direction 0 50 = 50"
  by (simp add: get_safe_altitude_for_direction_def py_fmod_def DIRECTION_ALTITUDE_MAP_def Let_def)

definition depot :: Position where
  "depot = \<lparr>latitude = 37.7, longitude = -122.4, altitude = 50\<rparr>"

definition null_island :: Position where
  "null_island = \<lparr>latitude = 0, longitude = 0, altitude = 50\<rparr>"


lemma heappop_single: "heappop [n] = Inr (n, [])"
  by (simp add: heappop_def)














definition north_pole :: Position where
  "north_pole = \<lparr>latitude = 90, longitude = 0, altitude = 50\<rparr>"

lemma heading_to_pole: "calculate_heading 0 0 90 0 = 0"
  by (simp add: calculate_heading_def radians_def degrees_def atan2_def py_fmod_def)

lemma haversine_to_pole: "haversine_distance 0 0 90 0 = 6371000 * (pi / 2)"
proof -
  have q: "radians (90 - 0) / 2 = pi / 4" "radians (0 - 0) / 2 = 0"
    by (simp_all add: radians_def)
  have a: "(sin (pi / 4))\<^sup>2 + cos (radians 0) * cos (radians 90) * (sin 0)\<^sup>2 = 1 / 2"
    by (simp add: sin_45 power2_eq_square)
  have h: "sqrt (1 / 2) > 0" by simp
  have t: "atan2 (sqrt (1 / 2)) (sqrt (1 - 1 / 2)) = pi / 4"
    using h by (simp add: atan2_def arctan_one)
  show ?thesis
    unfolding haversine_distance_def Let_def q a t by simp
qed

lemma pole_is_far: "\<not> distance_3d 0 0 50 90 0 50 < GRID_RESOLUTION * 1.5"
proof -
  have "(150::real) \<le> 6371000 * (pi / 2)"
    using pi_ge_two by simp
  then show ?thesis
    by (simp add: distance_3d_def haversine_to_pole GRID_RESOLUTION_def)
qed

definition pole_run_node :: Node4D where
  "pole_run_node = Node4D 0 0 50 0 None 0
     (heuristic (Node4D 0 0 50 0 None 0 0 0) north_pole)
     (heuristic (Node4D 0 0 50 0 None 0 0 0) north_pole)"

lemma no_neighbors_at_null_island:
  "get_neighbors pole_run_node 90 0 = Inr []"
  by (simp add: get_neighbors_def pole_run_node_def heading_to_pole
        safe_altitude_north radians_def py_div_def GRID_RESOLUTION_def Let_def
        neighbor_candidate_def mk_Position_def valid_position_def
        is_within_operational_area_def OPERATIONAL_AREA_def)

lemma run_to_pole:
  "plan_trajectory_run null_island north_pole 0 = (Inr None, 1, [])"
proof -
  have start: "plan_trajectory_run null_island north_pole 0
      = astar_loop north_pole [pole_run_node] [] 0"
    by (simp add: plan_trajectory_run_def Let_def heappush_empty null_island_def
          north_pole_def heading_to_pole safe_altitude_north pole_run_node_def)
  have far: "\<not> distance_3d (n_lat pole_run_node) (n_lon pole_run_node) (n_alt pole_run_node)
      (latitude north_pole) (longitude north_pole) (altitude north_pole) < GRID_RESOLUTION * 1.5"
    using pole_is_far by (simp add: pole_run_node_def north_pole_def)
  have nb: "get_neighbors pole_run_node (latitude north_pole) (longitude north_pole) = Inr []"
    using no_neighbors_at_null_island by (simp add: north_pole_def)
  have "astar_loop north_pole [pole_run_node] [] 0
      = astar_loop north_pole [] (closed_add pole_run_node []) (Suc 0)"
    using far
    by (subst astar_loop.simps) (simp add: heappop_single max_iterations_def nb Let_def)
  also have "\<dots> = (Inr None, Suc 0, [])"
    by (rule astar_loop_exit) simp
  finally show ?thesis using start by simp
qed

theorem plan_trajectory_bounded_witness:
  "plan_trajectory_run null_island north_pole 0 = (Inr None, 1, [])
   \<and> plan_trajectory null_island north_pole 0 = Inr None
   \<and> (1::nat) \<le> max_iterations \<and> max_iterations = 200000"
  using plan_trajectory_bounded [of null_island north_pole 0]
  by (simp add: run_to_pole)

subsection \<open>Requests that fail validation\<close>

lemma any_zone_contains_total:
  "list_all (\<lambda>z. polygon z \<noteq> []) zs \<Longrightarrow> \<exists>b. any_zone_contains pt zs = Inr b"
proof (induction zs)
  case Nil
  show ?case by auto
next
  case (Cons z zs)
  then obtain b where b: "any_zone_contains pt zs = Inr b" by auto
  from Cons.prems obtain q qs where "polygon z = q # qs"
    by (cases "polygon z") auto
  with b show ?case
    by (cases "pip_loop pt (q # qs) 1 (length (q # qs)) q False")
       (auto simp add: point_in_polygon_def simp del: pip_loop.simps)
qed

lemma is_in_no_fly_zone_total: "\<exists>b. is_in_no_fly_zone p = Inr b"
  unfolding is_in_no_fly_zone_def
  by (rule any_zone_contains_total) (simp add: NO_FLY_ZONES_def)

text \<open>
  Claim C6: if the pickup or the delivery position of a request lies outside the operational
  area or inside a no-fly zone, \<open>create_delivery_request\<close> raises the HTTP error 400 and
  returns the state it was called in: no mission, no table, no counter has changed, nothing
  was broadcast, and the log of planner calls is the same, so the planner was not invoked.
\<close>

theorem invalid_request_rejected:
  assumes "\<not> is_within_operational_area (pickup request)
         \<or> \<not> is_within_operational_area (delivery request)
         \<or> is_in_no_fly_zone (pickup request) = Inr True
         \<or> is_in_no_fly_zone (delivery request) = Inr True"
  shows "\<exists>detail. create_delivery_request env request s = (Inl (HTTPException 400 detail), s)"
proof -
  obtain b1 where b1: "is_in_no_fly_zone (pickup request) = Inr b1"
    using is_in_no_fly_zone_total by blast
  obtain b2 where b2: "is_in_no_fly_zone (delivery request) = Inr b2"
    using is_in_no_fly_zone_total by blast
  from assms b1 b2 show ?thesis
    by (auto simp: create_delivery_request_def)
qed

subsection \<open>The two conflict counters\<close>










subsection \<open>Two drones at one depot\<close>

text \<open>
  Two drones are registered at the depot. A first request, from the depot to a point
  0.0005 degrees of latitude (about 56 m) north of it, goes to the first drone; both of its
  searches pass the goal test at the first pop, so its flight plan is 30 seconds at the
  depot, in the 50 m lane. Five seconds later a second request goes to the second drone.
\<close>

definition north_of_depot :: Position where
  "north_of_depot = \<lparr>latitude = 37.7005, longitude = -122.4, altitude = 50\<rparr>"



definition ground_request :: DeliveryRequest where
  "ground_request = \<lparr>pickup = depot, delivery = north_of_depot\<rparr>"


definition request_env :: "string \<Rightarrow> real \<Rightarrow> RequestEnv" where
  "request_env u t =
     \<lparr>uuid_hex = u, time_created = t, time_assigned = t, time_planning = t,
      conflict_uuid = (\<lambda>d. ''6f1c2a9e-3b7d-4c8a-9e21-5d0f7a4b8c33'')\<rparr>"




definition first_call :: api_call where
  "first_call =
     DeliveryRequestCall (request_env ''3f2b8c1d9a7e4f60b5c2d1e0a9f8b7c6'' 0) ground_request"

definition busy_fleet :: ServerState where
  "busy_fleet =
     serve [RegisterDroneCall 0 ''drone_a'' depot, RegisterDroneCall 0 ''drone_b'' depot,
            first_call]
       initial_state"












































definition airport_request :: DeliveryRequest where
  "airport_request =
     \<lparr>pickup = \<lparr>latitude = 37.61, longitude = -122.37, altitude = 50\<rparr>, delivery = depot\<rparr>"

lemma airport_pickup_in_zone: "is_in_no_fly_zone (pickup airport_request) = Inr True"
  by (simp add: airport_request_def is_in_no_fly_zone_def NO_FLY_ZONES_def
        point_in_polygon_def edge_toggles_def Let_def nth_Cons')

theorem invalid_request_rejected_witness:
  "is_within_operational_area (pickup airport_request)
   \<and> is_in_no_fly_zone (pickup airport_request) = Inr True
   \<and> (\<exists>detail. create_delivery_request (request_env ''a81d04c27e5b4f3c9d6e0b1f2a3c4d5e'' 5)
         airport_request busy_fleet = (Inl (HTTPException 400 detail), busy_fleet))"
  using invalid_request_rejected
    [of airport_request "request_env ''a81d04c27e5b4f3c9d6e0b1f2a3c4d5e'' 5" busy_fleet]
  by (simp add: airport_pickup_in_zone)
     (simp add: airport_request_def is_within_operational_area_def OPERATIONAL_AREA_def)

end
